theory Spec2Isabelle
  imports Main "HOL-Library.AList"
begin

section \<open>The OpenAI gateway: values, effects and errors\<close>

text \<open>
  The gateway (src/index.ts) answers \<open>POST /v1/chat/completions\<close> by fetching a session
  from one upstream service and posting it (with the caller's conversation) to a second
  one. The repository holds two variants of the file: the two-stage variant (lines 1--180,
  compiled again at lines 354--466) and the session-only variant (lines 181--353).
  Names of the second variant carry the suffix \<open>_v2\<close> where both variants use one name.
\<close>

subsection \<open>JavaScript values\<close>

text \<open>
  Bodies are untyped at run time (\<open>response.data as ApiResponse\<close> checks nothing), so a
  value is any parsed JSON document. An array is an object too: besides its elements it
  may carry named properties, which is what \<open>apiResponse.statusCode = ...\<close> creates
  when the upstream body is an array. \<open>undefined\<close> is \<open>None\<close> of \<open>json option\<close>; a
  property whose value is \<open>undefined\<close> is modelled as an absent property (the program
  only reads properties and serialises objects, and neither tells the two apart).
  Numbers are integers here: the program passes them through and tests them for zero,
  and the status codes it assigns are integers.
\<close>

datatype json =
    JNull
  | JBool bool
  | JNum int
  | JStr string
  | JArr "json list" "(string \<times> json) list"
  | JObj "(string \<times> json) list"

text \<open>What the HTTP client hands over for a received answer: \<open>response.status\<close>
  and the parsed body \<open>response.data\<close>.\<close>

record axios_response =
  status :: int
  data :: json

datatype js_error =
    AxiosError "axios_response option"
  | TypeError
  | RangeError
  | OtherError

text \<open>
  \<open>AxiosError (Some r)\<close> is an error of the HTTP client that carries
  \<open>error.response = r\<close>;
  \<open>AxiosError None\<close> is one without a response (no answer was received).
  \<open>OtherError\<close> is any other value thrown by the client.
\<close>

fun truthy :: "json option \<Rightarrow> bool" where
  "truthy None = False"
| "truthy (Some JNull) = False"
| "truthy (Some (JBool b)) = b"
| "truthy (Some (JNum n)) = (n \<noteq> 0)"
| "truthy (Some (JStr s)) = (s \<noteq> [])"
| "truthy (Some (JArr xs ps)) = True"
| "truthy (Some (JObj ps)) = True"

text \<open>
  Reading \<open>v.k\<close>. Reading a property of \<open>null\<close> raises a TypeError; a primitive has
  none of the names the program reads (statusCode, status, data, session, message,
  error), so the read yields \<open>undefined\<close>.
\<close>

fun get_prop :: "json \<Rightarrow> string \<Rightarrow> js_error + json option" where
  "get_prop JNull k = Inl TypeError"
| "get_prop (JObj ps) k = Inr (map_of ps k)"
| "get_prop (JArr xs ps) k = Inr (map_of ps k)"
| "get_prop v k = Inr None"

text \<open>
  The assignment \<open>v.k = x\<close> in strict mode (the file is an ES module): on an object or
  an array it replaces the property in place or appends it; on \<open>null\<close> and on a
  primitive it raises a TypeError.
\<close>

fun set_prop :: "json \<Rightarrow> string \<Rightarrow> json \<Rightarrow> js_error + json" where
  "set_prop (JObj ps) k x = Inr (JObj (AList.update k x ps))"
| "set_prop (JArr xs ps) k x = Inr (JArr xs (AList.update k x ps))"
| "set_prop v k x = Inl TypeError"

text \<open>An object literal \<open>{k1: v1, ...}\<close> with distinct names; a property given
  \<open>undefined\<close> is left out.\<close>

fun obj_lit :: "(string \<times> json option) list \<Rightarrow> json" where
  "obj_lit kvs = JObj (concat (map (\<lambda>(k, v). case v of None \<Rightarrow> [] | Some x \<Rightarrow> [(k, x)]) kvs))"

subsection \<open>Effects\<close>

text \<open>
  The observable actions, in the order they happen: the GET to the session endpoint,
  the POST to the completion endpoint with the body sent, \<open>wait(ms)\<close>, and
  \<open>console.error\<close> with the status code and body it prints.
\<close>

datatype event =
    GetSession
  | PostCompletion json
  | Wait nat
  | LogError int json

text \<open>A computation yields the events it caused and either a thrown error or a value.\<close>

type_synonym 'a eff = "event list \<times> (js_error + 'a)"

definition after :: "event list \<Rightarrow> 'a eff \<Rightarrow> 'a eff" where
  "after evs m = (evs @ fst m, snd m)"

definition bind_eff :: "'a eff \<Rightarrow> ('a \<Rightarrow> 'b eff) \<Rightarrow> 'b eff" where
  "bind_eff m f = (case snd m of Inl e \<Rightarrow> (fst m, Inl e) | Inr x \<Rightarrow> after (fst m) (f x))"

definition pure_eff :: "js_error + 'a \<Rightarrow> 'a eff" where
  "pure_eff r = ([], r)"

text \<open>
  An awaited request either resolves with a response or rejects with an error. The
  session endpoint is asked repeatedly: its environment gives the outcome of the next
  call at 0, of the one after at 1, and so on. The completion endpoint is asked at most
  once per request, and its outcome may depend on the body posted.
\<close>

datatype outcome = Resolves axios_response | Rejects js_error

type_synonym session_env = "nat \<Rightarrow> outcome"
type_synonym completion_env = "json \<Rightarrow> outcome"

section \<open>The upstream calls\<close>

definition newSessionRetries :: nat where
  "newSessionRetries = 100"

text \<open>
  \<open>handleErrorResponse(error)\<close>, the same in both variants; \<open>None\<close> is the call
  \<open>handleErrorResponse(null)\<close>. With a response at hand it logs, then builds the result,
  and reading \<open>responseBody.message\<close> raises when the body is \<open>null\<close>.
\<close>

definition generic_error :: json where
  "generic_error = JObj [(''status'', JBool False), (''statusCode'', JNum 500),
     (''error'', JStr ''Internal server error'')]"

fun handleErrorResponse :: "js_error option \<Rightarrow> json eff" where
  "handleErrorResponse (Some (AxiosError (Some r))) =
     ([LogError (status r) (data r)],
      case get_prop (data r) ''message'' of
        Inl e \<Rightarrow> Inl e
      | Inr m \<Rightarrow> Inr (obj_lit [(''status'', Some (JBool False)),
                               (''statusCode'', Some (JNum (status r))),
                               (''error'', m)]))"
| "handleErrorResponse error = ([], Inr generic_error)"

text \<open>
  The body of the \<open>try\<close> block, the same in \<open>getNewSession\<close> and
  \<open>getCompletionWithOpenAi\<close>: the awaited request, then
  \<open>apiResponse.statusCode = response.status\<close> on the body received. What it throws is
  what the \<open>catch\<close> block receives.
\<close>

fun try_block :: "outcome \<Rightarrow> js_error + json" where
  "try_block (Rejects e) = Inl e"
| "try_block (Resolves r) = set_prop (data r) ''statusCode'' (JNum (status r))"

text \<open>
  \<open>if (!errorResponse.error) errorResponse.error = msg\<close>, as both functions of the
  two-stage variant have it.
\<close>

definition default_error :: "string \<Rightarrow> json \<Rightarrow> json eff" where
  "default_error msg errorResponse =
     bind_eff (pure_eff (get_prop errorResponse ''error'')) (\<lambda>err.
       if \<not> truthy err
       then pure_eff (set_prop errorResponse ''error'' (JStr msg))
       else pure_eff (Inr errorResponse))"

text \<open>\<open>getNewSession(retries = 0)\<close> of the two-stage variant (lines 93--112).\<close>

function getNewSession :: "session_env \<Rightarrow> nat \<Rightarrow> json eff" where
  "getNewSession env retries =
     (case try_block (env 0) of
        Inr apiResponse \<Rightarrow> ([GetSession], Inr apiResponse)
      | Inl error \<Rightarrow>
          if retries < newSessionRetries
          then after [GetSession, Wait 1] (getNewSession (\<lambda>k. env (Suc k)) (retries + 1))
          else after [GetSession, Wait 1]
                 (bind_eff (handleErrorResponse (Some error))
                    (default_error ''Error while getting session...'')))"
  by pat_completeness auto
termination
  by (relation "measure (\<lambda>(env, retries). Suc newSessionRetries - retries)") auto

text \<open>\<open>getNewSession\<close> of the session-only variant (lines 284--299).\<close>

function getNewSession_v2 :: "session_env \<Rightarrow> nat \<Rightarrow> json eff" where
  "getNewSession_v2 env retries =
     (case try_block (env 0) of
        Inr apiResponse \<Rightarrow> ([GetSession], Inr apiResponse)
      | Inl error \<Rightarrow>
          if retries < newSessionRetries
          then after [GetSession, Wait 1] (getNewSession_v2 (\<lambda>k. env (Suc k)) (retries + 1))
          else after [GetSession, Wait 1] (handleErrorResponse (Some error)))"
  by pat_completeness auto
termination
  by (relation "measure (\<lambda>(env, retries). Suc newSessionRetries - retries)") auto

declare getNewSession.simps [simp del] getNewSession_v2.simps [simp del]

text \<open>
  \<open>CompletionRequest\<close> of the two-stage variant, built by the object literal
  \<open>{session: session, conversation: conversationRequest}\<close>; \<open>to_json\<close> is the object
  that the client serialises and posts.
\<close>

record CompletionRequest =
  session :: "json option"
  conversation :: "json option"

definition to_json :: "CompletionRequest \<Rightarrow> json" where
  "to_json c = obj_lit [(''session'', session c), (''conversation'', conversation c)]"

text \<open>\<open>getCompletionWithOpenAi(completionRequest)\<close> of the two-stage variant
  (lines 114--133).\<close>

definition getCompletionWithOpenAi :: "completion_env \<Rightarrow> CompletionRequest \<Rightarrow> json eff" where
  "getCompletionWithOpenAi env completionRequest =
     (if \<not> truthy (session completionRequest) then handleErrorResponse None
      else after [PostCompletion (to_json completionRequest)]
        (case try_block (env (to_json completionRequest)) of
           Inr apiResponse \<Rightarrow> ([], Inr apiResponse)
         | Inl error \<Rightarrow>
             bind_eff (handleErrorResponse (Some error))
               (default_error ''Error while getting completions...'')))"

text \<open>\<open>getCompletionWithOpenAi(session)\<close> of the session-only variant
  (lines 301--311): the session itself is the body posted.\<close>

definition getCompletionWithOpenAi_v2 :: "completion_env \<Rightarrow> json option \<Rightarrow> json eff" where
  "getCompletionWithOpenAi_v2 env sess =
     (case sess of
        None \<Rightarrow> handleErrorResponse None
      | Some s \<Rightarrow>
          if \<not> truthy (Some s) then handleErrorResponse None
          else after [PostCompletion s]
            (case try_block (env s) of
               Inr apiResponse \<Rightarrow> ([], Inr apiResponse)
             | Inl error \<Rightarrow> handleErrorResponse (Some error)))"

section \<open>The request handlers\<close>

text \<open>
  \<open>req\<close> as the handlers read it: the method, the path and \<open>req.body\<close> as the JSON
  body parser left it. \<open>res\<close> is the response under construction: the status code
  (200 until set), the headers and what was written. \<open>JsonBody v\<close> is the value
  handed to \<open>res.json\<close>, before serialisation.
\<close>

record http_req =
  "method" :: string
  path :: string
  body :: "json option"

datatype payload = NoBody | TextBody string | JsonBody json

record http_res =
  code :: int
  headers :: "(string \<times> string) list"
  payload :: payload

definition new_res :: http_res where
  "new_res = \<lparr>code = 200, headers = [], payload = NoBody\<rparr>"

definition enableCORS :: "http_req \<Rightarrow> http_res \<Rightarrow> (http_res \<Rightarrow> http_res eff) \<Rightarrow> http_res eff" where
  "enableCORS req res next =
     (let res1 = res\<lparr>headers :=
            AList.update ''Access-Control-Allow-Methods'' ''GET, POST, OPTIONS''
              (AList.update ''Access-Control-Allow-Headers'' ''*''
                (AList.update ''Access-Control-Allow-Origin'' ''*'' (headers res)))\<rparr>
      in if method req = ''OPTIONS'' then pure_eff (Inr (res1\<lparr>code := 200\<rparr>))
         else next res1)"

text \<open>
  \<open>res.status(r.statusCode).json(r)\<close>: the status code must be a number, anything else
  makes the framework raise when the head is written.
\<close>

definition relay :: "json \<Rightarrow> http_res \<Rightarrow> http_res eff" where
  "relay r res =
     bind_eff (pure_eff (get_prop r ''statusCode'')) (\<lambda>c.
       case c of
         Some (JNum n) \<Rightarrow> pure_eff (Inr (res\<lparr>code := n, payload := JsonBody r\<rparr>))
       | _ \<Rightarrow> pure_eff (Inl RangeError))"

definition handleDefault :: "http_req \<Rightarrow> http_res \<Rightarrow> http_res eff" where
  "handleDefault req res =
     pure_eff (Inr (res\<lparr>payload :=
       TextBody ''Welcome OpenAI Gateway API - The service running correctly''\<rparr>))"

text \<open>\<open>handleConversation\<close> of the two-stage variant (lines 140--155).\<close>

definition handleConversation ::
  "session_env \<Rightarrow> completion_env \<Rightarrow> http_req \<Rightarrow> http_res \<Rightarrow> http_res eff" where
  "handleConversation senv cenv req res =
     bind_eff (getNewSession senv 0) (\<lambda>sessionResponse.
     bind_eff (pure_eff (get_prop sessionResponse ''status'')) (\<lambda>st.
       if \<not> truthy st then relay sessionResponse res
       else
         bind_eff (pure_eff (get_prop sessionResponse ''data'')) (\<lambda>sess.
         bind_eff (getCompletionWithOpenAi cenv \<lparr>session = sess, conversation = body req\<rparr>)
           (\<lambda>completionResponse. relay completionResponse res))))"

text \<open>\<open>handleChatCompletion\<close> of the session-only variant (lines 318--328).\<close>

definition handleChatCompletion ::
  "session_env \<Rightarrow> completion_env \<Rightarrow> http_req \<Rightarrow> http_res \<Rightarrow> http_res eff" where
  "handleChatCompletion senv cenv req res =
     bind_eff (getNewSession_v2 senv 0) (\<lambda>sessionResponse.
     bind_eff (pure_eff (get_prop sessionResponse ''status'')) (\<lambda>st.
       if \<not> truthy st then relay sessionResponse res
       else
         bind_eff (pure_eff (get_prop sessionResponse ''data'')) (\<lambda>sess.
         bind_eff (getCompletionWithOpenAi_v2 cenv sess)
           (\<lambda>completionResponse. relay completionResponse res))))"

text \<open>\<open>toLocaleUpperCase\<close> on the ASCII letters an HTTP method consists of.\<close>

definition upper_char :: "char \<Rightarrow> char" where
  "upper_char c =
     (let n = (of_char c :: nat) in if 97 \<le> n \<and> n \<le> 122 then char_of (n - 32) else c)"

definition toLocaleUpperCase :: "string \<Rightarrow> string" where
  "toLocaleUpperCase s = map upper_char s"

text \<open>The fallback handler (lines 164--174); \<open>port\<close> is the configured port.\<close>

definition notFound :: "string \<Rightarrow> http_req \<Rightarrow> http_res \<Rightarrow> http_res eff" where
  "notFound port req res =
     pure_eff (Inr (res\<lparr>code := 404, payload := JsonBody (JObj
       [(''status'', JBool False),
        (''error'', JObj
          [(''message'', JStr (''The requested endpoint ('' @ toLocaleUpperCase (method req) @ '' ''
              @ path req @ '') was not found. please make sure to use '' @ [CHR 0x22]
              @ ''http://localhost:'' @ port @ ''/v1'' @ [CHR 0x22] @ '' as the base URL.'')),
           (''type'', JStr ''invalid_request_error'')])])\<rparr>))"

text \<open>
  The application after the body parser: the CORS middleware, the two routes in the
  order they are registered, the fallback. (A request whose body does not parse is
  answered by the parser and reaches none of them.) Whether a request matches a route
  (\<open>app.get(path, ...)\<close>, \<open>app.post(path, ...)\<close>) is the framework's decision and a
  parameter here: \<open>route verb p req\<close>. \<open>exact_route\<close> is the plain reading, the same
  method and the same path.
\<close>

type_synonym router = "string \<Rightarrow> string \<Rightarrow> http_req \<Rightarrow> bool"

definition exact_route :: router where
  "exact_route verb p req = (method req = verb \<and> path req = p)"

definition app :: "router \<Rightarrow> string \<Rightarrow> session_env \<Rightarrow> completion_env \<Rightarrow> http_req \<Rightarrow> http_res eff" where
  "app route port senv cenv req =
     enableCORS req new_res (\<lambda>res.
       if route ''GET'' ''/'' req then handleDefault req res
       else if route ''POST'' ''/v1/chat/completions'' req then handleConversation senv cenv req res
       else notFound port req res)"

definition app_v2 :: "router \<Rightarrow> string \<Rightarrow> session_env \<Rightarrow> completion_env \<Rightarrow> http_req \<Rightarrow> http_res eff" where
  "app_v2 route port senv cenv req =
     enableCORS req new_res (\<lambda>res.
       if route ''GET'' ''/'' req then handleDefault req res
       else if route ''POST'' ''/v1/chat/completions'' req then handleChatCompletion senv cenv req res
       else notFound port req res)"

section \<open>Auxiliary notions for the statements\<close>

text \<open>
  What error normalisation builds: an object with \<open>status: false\<close>, a numeric
  \<open>statusCode\<close> and no \<open>data\<close>.
\<close>

definition error_shaped :: "json \<Rightarrow> bool" where
  "error_shaped r = (\<exists>ps n. r = JObj ps \<and> map_of ps ''status'' = Some (JBool False)
      \<and> map_of ps ''statusCode'' = Some (JNum n) \<and> map_of ps ''data'' = None)"

text \<open>A session endpoint that fails \<open>N\<close> times without an answer and then
  answers 200 with an empty object.\<close>

definition fails_then_ok :: "nat \<Rightarrow> session_env" where
  "fails_then_ok N k =
     (if k < N then Rejects (AxiosError None) else Resolves \<lparr>status = 200, data = JObj []\<rparr>)"

text \<open>
  The invariant of a uniform result in the words of the specification: \<open>status\<close> is
  true if and only if \<open>error\<close> is absent and \<open>data\<close> is present.
\<close>

definition uniform_invariant :: "json \<Rightarrow> bool" where
  "uniform_invariant r =
     ((get_prop r ''status'' = Inr (Some (JBool True))) =
      (get_prop r ''error'' = Inr None \<and>
       (case get_prop r ''data'' of Inr (Some d) \<Rightarrow> True | _ \<Rightarrow> False)))"

text \<open>
  Example environments and requests. A session endpoint whose first answer is a 404 that
  the client raises as an error, and which answers 200 afterwards; one that answers
  \<open>{status: true}\<close> without data; one that refuses with \<open>status: false\<close>; one
  that hands out a given bundle; one that never answers. A completion endpoint that
  echoes the body posted, and one that answers 400 with an empty object. A request to
  the completion route.
\<close>

definition http_error_then_ok :: session_env where
  "http_error_then_ok k =
     (if k = 0
      then Rejects (AxiosError (Some \<lparr>status = 404, data = JObj [(''message'', JStr ''Not Found'')]\<rparr>))
      else Resolves \<lparr>status = 200, data = JObj [(''status'', JBool True), (''data'', JObj [])]\<rparr>)"

definition session_no_data :: session_env where
  "session_no_data k = Resolves \<lparr>status = 200, data = JObj [(''status'', JBool True)]\<rparr>"

definition echo :: completion_env where
  "echo b = Resolves \<lparr>status = 200, data = b\<rparr>"

definition post_req :: http_req where
  "post_req = \<lparr>method = ''POST'', path = ''/v1/chat/completions'',
     body = Some (JObj [(''model'', JStr ''gpt''), (''messages'', JArr [] [])])\<rparr>"

definition session_refused :: session_env where
  "session_refused k =
     Resolves \<lparr>status = 200, data = JObj [(''status'', JBool False), (''error'', JStr ''busy'')]\<rparr>"

definition session_ok :: "json \<Rightarrow> session_env" where
  "session_ok bundle k =
     Resolves \<lparr>status = 200, data = JObj
       [(''statusCode'', JNum 200), (''status'', JBool True), (''data'', bundle)]\<rparr>"

definition http_400_empty :: completion_env where
  "http_400_empty b = Rejects (AxiosError (Some \<lparr>status = 400, data = JObj []\<rparr>))"

definition no_answer :: session_env where
  "no_answer k = Rejects (AxiosError None)"

section \<open>Basic facts\<close>

lemma after_pair [simp]: "after evs (es, r) = (evs @ es, r)"
  by (simp add: after_def)

lemma fst_after [simp]: "fst (after evs m) = evs @ fst m"
  by (simp add: after_def)

lemma snd_after [simp]: "snd (after evs m) = snd m"
  by (simp add: after_def)

lemma bind_eff_Inl [simp]: "bind_eff (es, Inl e) f = (es, Inl e)"
  by (simp add: bind_eff_def)

lemma bind_eff_Inr [simp]: "bind_eff (es, Inr x) f = after es (f x)"
  by (simp add: bind_eff_def)

lemma handleErrorResponse_shape:
  "snd (handleErrorResponse e) = Inr r \<Longrightarrow> error_shaped r"
  by (cases e rule: handleErrorResponse.cases)
     (auto simp: error_shaped_def generic_error_def split: sum.splits option.splits)

lemma handleErrorResponse_events:
  "set (fst (handleErrorResponse e)) \<subseteq> range (\<lambda>(n, b). LogError n b)"
  by (cases e rule: handleErrorResponse.cases) auto

lemma default_error_shape:
  "error_shaped r \<Longrightarrow> \<exists>r'. default_error msg r = ([], Inr r') \<and> error_shaped r'"
  by (auto simp: default_error_def error_shaped_def pure_eff_def update_conv')

lemma error_shaped_statusCode:
  "error_shaped r \<Longrightarrow> \<exists>n. get_prop r ''statusCode'' = Inr (Some (JNum n))"
  by (auto simp: error_shaped_def)

lemma try_block_statusCode:
  "try_block out = Inr v \<Longrightarrow> \<exists>n. get_prop v ''statusCode'' = Inr (Some (JNum n))"
proof (cases out)
  case (Resolves r)
  assume "try_block out = Inr v"
  with Resolves show ?thesis
    by (cases "data r") (auto simp: update_conv')
qed simp

subsection \<open>Unfolding one attempt of the session fetch\<close>

lemma getNewSession_Inr:
  "try_block (env 0) = Inr v \<Longrightarrow> getNewSession env n = ([GetSession], Inr v)"
  by (simp add: getNewSession.simps [of env n])

lemma getNewSession_retry:
  "try_block (env 0) = Inl e \<Longrightarrow> n < 100 \<Longrightarrow>
   getNewSession env n = after [GetSession, Wait 1] (getNewSession (\<lambda>k. env (Suc k)) (Suc n))"
  by (simp add: getNewSession.simps [of env n] newSessionRetries_def)

lemma getNewSession_last:
  "try_block (env 0) = Inl e \<Longrightarrow> \<not> n < 100 \<Longrightarrow>
   getNewSession env n = after [GetSession, Wait 1]
     (bind_eff (handleErrorResponse (Some e)) (default_error ''Error while getting session...''))"
  by (simp add: getNewSession.simps [of env n] newSessionRetries_def)

lemma getNewSession_v2_Inr:
  "try_block (env 0) = Inr v \<Longrightarrow> getNewSession_v2 env n = ([GetSession], Inr v)"
  by (simp add: getNewSession_v2.simps [of env n])

lemma getNewSession_v2_retry:
  "try_block (env 0) = Inl e \<Longrightarrow> n < 100 \<Longrightarrow>
   getNewSession_v2 env n =
     after [GetSession, Wait 1] (getNewSession_v2 (\<lambda>k. env (Suc k)) (Suc n))"
  by (simp add: getNewSession_v2.simps [of env n] newSessionRetries_def)

lemma getNewSession_v2_last:
  "try_block (env 0) = Inl e \<Longrightarrow> \<not> n < 100 \<Longrightarrow>
   getNewSession_v2 env n = after [GetSession, Wait 1] (handleErrorResponse (Some e))"
  by (simp add: getNewSession_v2.simps [of env n] newSessionRetries_def)

text \<open>A run of \<open>m\<close> failed attempts that stays within the retry budget.\<close>

lemma getNewSession_fail_run:
  "\<forall>k<m. \<exists>e. try_block (env k) = Inl e \<Longrightarrow> n + m \<le> 100 \<Longrightarrow>
   getNewSession env n =
     after (concat (replicate m [GetSession, Wait 1])) (getNewSession (\<lambda>k. env (m + k)) (n + m))"
proof (induction m arbitrary: env n)
  case 0
  then show ?case by (simp add: after_def)
next
  case (Suc m)
  from Suc.prems obtain e where e: "try_block (env 0) = Inl e" by auto
  have tl: "\<forall>k<m. \<exists>e. try_block (env (Suc k)) = Inl e" using Suc.prems by auto
  have "getNewSession env n = after [GetSession, Wait 1] (getNewSession (\<lambda>k. env (Suc k)) (Suc n))"
    using e Suc.prems by (simp add: getNewSession_retry)
  also have "getNewSession (\<lambda>k. env (Suc k)) (Suc n) =
      after (concat (replicate m [GetSession, Wait 1]))
        (getNewSession (\<lambda>k. env (Suc (m + k))) (Suc n + m))"
    using Suc.IH [of "\<lambda>k. env (Suc k)" "Suc n"] tl Suc.prems by simp
  finally show ?case by (simp add: after_def)
qed

lemma getNewSession_v2_fail_run:
  "\<forall>k<m. \<exists>e. try_block (env k) = Inl e \<Longrightarrow> n + m \<le> 100 \<Longrightarrow>
   getNewSession_v2 env n =
     after (concat (replicate m [GetSession, Wait 1]))
       (getNewSession_v2 (\<lambda>k. env (m + k)) (n + m))"
proof (induction m arbitrary: env n)
  case 0
  then show ?case by (simp add: after_def)
next
  case (Suc m)
  from Suc.prems obtain e where e: "try_block (env 0) = Inl e" by auto
  have tl: "\<forall>k<m. \<exists>e. try_block (env (Suc k)) = Inl e" using Suc.prems by auto
  have "getNewSession_v2 env n =
      after [GetSession, Wait 1] (getNewSession_v2 (\<lambda>k. env (Suc k)) (Suc n))"
    using e Suc.prems by (simp add: getNewSession_v2_retry)
  also have "getNewSession_v2 (\<lambda>k. env (Suc k)) (Suc n) =
      after (concat (replicate m [GetSession, Wait 1]))
        (getNewSession_v2 (\<lambda>k. env (Suc (m + k))) (Suc n + m))"
    using Suc.IH [of "\<lambda>k. env (Suc k)" "Suc n"] tl Suc.prems by simp
  finally show ?case by (simp add: after_def)
qed

subsection \<open>Results and events of the session fetch\<close>

lemma give_up_shape:
  "snd (bind_eff (handleErrorResponse (Some e)) (default_error msg)) = Inr r \<Longrightarrow> error_shaped r"
proof -
  assume a: "snd (bind_eff (handleErrorResponse (Some e)) (default_error msg)) = Inr r"
  obtain evs x where h: "handleErrorResponse (Some e) = (evs, x)" by (cases "handleErrorResponse (Some e)")
  show ?thesis
  proof (cases x)
    case (Inl err)
    with a h show ?thesis by simp
  next
    case (Inr er)
    with h have "error_shaped er" using handleErrorResponse_shape [of "Some e" er] by simp
    then obtain r' where "default_error msg er = ([], Inr r')" "error_shaped r'"
      using default_error_shape by blast
    with a h Inr show ?thesis by simp
  qed
qed

lemma give_up_events:
  "set (fst (bind_eff (handleErrorResponse (Some e)) (default_error msg)))
     \<subseteq> range (\<lambda>(n, b). LogError n b)"
proof -
  obtain evs x where h: "handleErrorResponse (Some e) = (evs, x)" by (cases "handleErrorResponse (Some e)")
  have evs: "set evs \<subseteq> range (\<lambda>(n, b). LogError n b)"
    using handleErrorResponse_events [of "Some e"] h by simp
  show ?thesis
  proof (cases x)
    case (Inl err)
    with h evs show ?thesis by simp
  next
    case (Inr er)
    with h have "error_shaped er" using handleErrorResponse_shape [of "Some e" er] by simp
    then obtain r' where "default_error msg er = ([], Inr r')"
      using default_error_shape by blast
    with h Inr evs show ?thesis by simp
  qed
qed

lemma getNewSession_result:
  "snd (getNewSession env n) = Inr r \<Longrightarrow> error_shaped r \<or> (\<exists>k. try_block (env k) = Inr r)"
proof (induction env n rule: getNewSession.induct)
  case (1 env retries)
  show ?case
  proof (cases "try_block (env 0)")
    case (Inr v)
    with "1.prems" show ?thesis by (auto simp: getNewSession_Inr)
  next
    case (Inl e)
    show ?thesis
    proof (cases "retries < 100")
      case True
      with Inl "1.prems" have "snd (getNewSession (\<lambda>k. env (Suc k)) (retries + 1)) = Inr r"
        by (simp add: getNewSession_retry)
      with "1.IH" [OF Inl] True show ?thesis by (auto simp: newSessionRetries_def)
    next
      case False
      with Inl "1.prems" show ?thesis by (auto simp: getNewSession_last dest: give_up_shape)
    qed
  qed
qed

lemma getNewSession_events:
  "set (fst (getNewSession env n)) \<subseteq> {GetSession, Wait 1} \<union> range (\<lambda>(n, b). LogError n b)"
proof (induction env n rule: getNewSession.induct)
  case (1 env retries)
  show ?case
  proof (cases "try_block (env 0)")
    case (Inr v)
    then show ?thesis by (simp add: getNewSession_Inr)
  next
    case (Inl e)
    show ?thesis
    proof (cases "retries < 100")
      case True
      with "1.IH" [OF Inl] Inl show ?thesis 
        by (auto simp: getNewSession_retry newSessionRetries_def)
    next
      case False
      with Inl give_up_events [of e "''Error while getting session...''"] show ?thesis
        by (auto simp: getNewSession_last)
    qed
  qed
qed

lemma getNewSession_bound:
  "count_list (fst (getNewSession env n)) GetSession \<le> Suc (100 - n)"
proof (induction env n rule: getNewSession.induct)
  case (1 env retries)
  show ?case
  proof (cases "try_block (env 0)")
    case (Inr v)
    then show ?thesis by (simp add: getNewSession_Inr)
  next
    case (Inl e)
    show ?thesis
    proof (cases "retries < 100")
      case True
      with "1.IH" [OF Inl] Inl show ?thesis 
        by (auto simp: getNewSession_retry newSessionRetries_def)
    next
      case False
      have "GetSession \<notin> set (fst (bind_eff (handleErrorResponse (Some e))
               (default_error ''Error while getting session...'')))"
        using give_up_events [of e "''Error while getting session...''"] by auto
      with False Inl show ?thesis
        by (simp add: getNewSession_last)
    qed
  qed
qed

lemma getNewSession_v2_result:
  "snd (getNewSession_v2 env n) = Inr r \<Longrightarrow> error_shaped r \<or> (\<exists>k. try_block (env k) = Inr r)"
proof (induction env n rule: getNewSession_v2.induct)
  case (1 env retries)
  show ?case
  proof (cases "try_block (env 0)")
    case (Inr v)
    with "1.prems" show ?thesis by (auto simp: getNewSession_v2_Inr)
  next
    case (Inl e)
    show ?thesis
    proof (cases "retries < 100")
      case True
      with Inl "1.prems" have "snd (getNewSession_v2 (\<lambda>k. env (Suc k)) (retries + 1)) = Inr r"
        by (simp add: getNewSession_v2_retry)
      with "1.IH" [OF Inl] True show ?thesis by (auto simp: newSessionRetries_def)
    next
      case False
      with Inl "1.prems" show ?thesis
        by (auto simp: getNewSession_v2_last dest: handleErrorResponse_shape)
    qed
  qed
qed

lemma getNewSession_v2_events:
  "set (fst (getNewSession_v2 env n)) \<subseteq> {GetSession, Wait 1} \<union> range (\<lambda>(n, b). LogError n b)"
proof (induction env n rule: getNewSession_v2.induct)
  case (1 env retries)
  show ?case
  proof (cases "try_block (env 0)")
    case (Inr v)
    then show ?thesis by (simp add: getNewSession_v2_Inr)
  next
    case (Inl e)
    show ?thesis
    proof (cases "retries < 100")
      case True
      with "1.IH" [OF Inl] Inl show ?thesis
        by (auto simp: getNewSession_v2_retry newSessionRetries_def)
    next
      case False
      with Inl handleErrorResponse_events [of "Some e"] show ?thesis
        by (auto simp: getNewSession_v2_last)
    qed
  qed
qed

lemma getNewSession_v2_bound:
  "count_list (fst (getNewSession_v2 env n)) GetSession \<le> Suc (100 - n)"
proof (induction env n rule: getNewSession_v2.induct)
  case (1 env retries)
  show ?case
  proof (cases "try_block (env 0)")
    case (Inr v)
    then show ?thesis by (simp add: getNewSession_v2_Inr)
  next
    case (Inl e)
    show ?thesis
    proof (cases "retries < 100")
      case True
      with "1.IH" [OF Inl] Inl show ?thesis
        by (auto simp: getNewSession_v2_retry newSessionRetries_def)
    next
      case False
      have "GetSession \<notin> set (fst (handleErrorResponse (Some e)))"
        using handleErrorResponse_events [of "Some e"] by auto
      with False Inl show ?thesis
        by (simp add: getNewSession_v2_last)
    qed
  qed
qed

subsection \<open>Counting attempts\<close>

lemma count_attempts [simp]:
  "count_list (concat (replicate m [GetSession, Wait w])) GetSession = m"
  by (induction m) auto

lemma count_waits [simp]:
  "count_list (concat (replicate m [GetSession, Wait w])) (Wait w) = m"
  by (induction m) auto

lemma replicate_snoc_pair:
  "concat (replicate m [GetSession, Wait 1]) @ [GetSession, Wait 1]
     = concat (replicate (Suc m) [GetSession, Wait 1])"
  by (induction m) auto

lemma getNewSession_recovers:
  assumes "\<forall>k<N. \<exists>e. try_block (senv k) = Inl e" and "N \<le> 100"
    and "try_block (senv N) = Inr v"
  shows "getNewSession senv 0 = (concat (replicate N [GetSession, Wait 1]) @ [GetSession], Inr v)"
proof -
  have "getNewSession senv 0 =
      after (concat (replicate N [GetSession, Wait 1])) (getNewSession (\<lambda>k. senv (N + k)) (0 + N))"
    using assms by (intro getNewSession_fail_run) auto
  moreover have "getNewSession (\<lambda>k. senv (N + k)) (0 + N) = ([GetSession], Inr v)"
    using assms by (intro getNewSession_Inr) simp
  ultimately show ?thesis by simp
qed

lemma getNewSession_exhausted:
  assumes "\<forall>k<100. \<exists>e. try_block (senv k) = Inl e" and "try_block (senv 100) = Inl e"
  shows "getNewSession senv 0 =
     after (concat (replicate 101 [GetSession, Wait 1]))
       (bind_eff (handleErrorResponse (Some e)) (default_error ''Error while getting session...''))"
proof -
  have "getNewSession senv 0 =
      after (concat (replicate 100 [GetSession, Wait 1])) (getNewSession (\<lambda>k. senv (100 + k)) (0 + 100))"
    using assms by (intro getNewSession_fail_run) auto
  moreover have "getNewSession (\<lambda>k. senv (100 + k)) (0 + 100) =
      after [GetSession, Wait 1]
       (bind_eff (handleErrorResponse (Some e)) (default_error ''Error while getting session...''))"
    using assms by (intro getNewSession_last) simp_all
  ultimately show ?thesis
    using replicate_snoc_pair [of 100] by (simp add: after_def del: replicate_Suc replicate.simps)
qed

lemma getNewSession_v2_exhausted:
  assumes "\<forall>k<100. \<exists>e. try_block (senv k) = Inl e" and "try_block (senv 100) = Inl e"
  shows "getNewSession_v2 senv 0 =
     after (concat (replicate 101 [GetSession, Wait 1])) (handleErrorResponse (Some e))"
proof -
  have "getNewSession_v2 senv 0 =
      after (concat (replicate 100 [GetSession, Wait 1])) (getNewSession_v2 (\<lambda>k. senv (100 + k)) (0 + 100))"
    using assms by (intro getNewSession_v2_fail_run) auto
  moreover have "getNewSession_v2 (\<lambda>k. senv (100 + k)) (0 + 100) =
      after [GetSession, Wait 1] (handleErrorResponse (Some e))"
    using assms by (intro getNewSession_v2_last) simp_all
  ultimately show ?thesis
    using replicate_snoc_pair [of 100] by (simp add: after_def del: replicate_Suc replicate.simps)
qed

lemma no_response_generic:
  "\<forall>r. e \<noteq> AxiosError (Some r) \<Longrightarrow> handleErrorResponse (Some e) = ([], Inr generic_error)"
  by (cases "Some e" rule: handleErrorResponse.cases) auto

lemma default_error_generic [simp]:
  "default_error msg generic_error = ([], Inr generic_error)"
  by (simp add: default_error_def generic_error_def pure_eff_def)

lemma relay_generic [simp]:
  "relay generic_error res = ([], Inr (res\<lparr>code := 500, payload := JsonBody generic_error\<rparr>))"
  by (simp add: relay_def generic_error_def pure_eff_def)


section \<open>The retry bound of the session fetch\<close>

text \<open>
  Claim C1, as the code has it. When the first \<open>N\<close> calls of the session fetch throw
  (and, if the budget is not used up, the next one returns), \<open>getNewSession\<close> makes
  \<open>min (N + 1) 101\<close> fetches: the first attempt and at most 100 retries. It waits 1 ms
  after every failed attempt, so \<open>min N 101\<close> times, also after the last one. It gives
  up, returning the normalised error of the 101st failure, only when \<open>N\<close> exceeds 100;
  otherwise it returns what call number \<open>N\<close> brought.
\<close>

theorem session_fetch_attempts:
  "(\<forall>k<N. \<exists>e. senv k = Rejects e) \<longrightarrow>
   (N \<le> 100 \<longrightarrow> (\<exists>v. try_block (senv N) = Inr v)) \<longrightarrow>
     count_list (fst (getNewSession senv 0)) GetSession = min (N + 1) 101
   \<and> count_list (fst (getNewSession senv 0)) (Wait 1) = min N 101
   \<and> (N \<le> 100 \<longrightarrow> getNewSession senv 0 =
          (concat (replicate N [GetSession, Wait 1]) @ [GetSession], try_block (senv N)))
   \<and> (100 < N \<longrightarrow> (\<exists>e. senv 100 = Rejects e \<and> getNewSession senv 0 =
          after (concat (replicate 101 [GetSession, Wait 1]))
            (bind_eff (handleErrorResponse (Some e))
               (default_error ''Error while getting session...''))))"
proof (intro impI)
  assume fails: "\<forall>k<N. \<exists>e. senv k = Rejects e"
    and ok: "N \<le> 100 \<longrightarrow> (\<exists>v. try_block (senv N) = Inr v)"
  from fails have f: "\<forall>k<N. \<exists>e. try_block (senv k) = Inl e" by auto
  show "count_list (fst (getNewSession senv 0)) GetSession = min (N + 1) 101
   \<and> count_list (fst (getNewSession senv 0)) (Wait 1) = min N 101
   \<and> (N \<le> 100 \<longrightarrow> getNewSession senv 0 =
          (concat (replicate N [GetSession, Wait 1]) @ [GetSession], try_block (senv N)))
   \<and> (100 < N \<longrightarrow> (\<exists>e. senv 100 = Rejects e \<and> getNewSession senv 0 =
          after (concat (replicate 101 [GetSession, Wait 1]))
            (bind_eff (handleErrorResponse (Some e))
               (default_error ''Error while getting session...''))))"
  proof (cases "N \<le> 100")
    case True
    with ok obtain v where v: "try_block (senv N) = Inr v" by auto
    have g: "getNewSession senv 0 = (concat (replicate N [GetSession, Wait 1]) @ [GetSession], Inr v)"
      using getNewSession_recovers [OF f True v] .
    have m: "min N 101 = N" "min (N + 1) 101 = N + 1" using True by auto
    show ?thesis using True v by (simp add: g m del: replicate.simps)
  next
    case False
    then have "100 < N" by simp
    with fails obtain e where e: "senv 100 = Rejects e" by auto
    let ?g = "bind_eff (handleErrorResponse (Some e)) (default_error ''Error while getting session...'')"
    have g: "getNewSession senv 0 = after (concat (replicate 101 [GetSession, Wait 1])) ?g"
      using f e \<open>100 < N\<close> by (intro getNewSession_exhausted) auto
    have ev: "set (fst ?g) \<subseteq> range (\<lambda>(n, b). LogError n b)" by (rule give_up_events)
    then have n1: "GetSession \<notin> set (fst ?g)" and n4: "Wait 1 \<notin> set (fst ?g)" by auto
    have m: "min N 101 = 101" "min (N + 1) 101 = 101" using False by auto
    have c1: "count_list (fst (getNewSession senv 0)) GetSession = 101"
      using n1 by (simp add: g del: replicate.simps replicate_Suc)
    have c2: "count_list (fst (getNewSession senv 0)) (Wait 1) = 101"
      using n4 by (simp add: g del: replicate.simps replicate_Suc One_nat_def)
    show ?thesis using False e c1 c2 g by (simp only: m) simp
  qed
qed

text \<open>
  Claim C1, witness: two failures followed by an answer, and 101 failures.
\<close>

theorem session_fetch_attempts_witness:
  "try_block (fails_then_ok 2 2) = Inr (JObj [(''statusCode'', JNum 200)])
   \<and> getNewSession (fails_then_ok 2) 0 =
       ([GetSession, Wait 1, GetSession, Wait 1, GetSession], Inr (JObj [(''statusCode'', JNum 200)]))
   \<and> count_list (fst (getNewSession (fails_then_ok 101) 0)) GetSession = 101
   \<and> count_list (fst (getNewSession (fails_then_ok 101) 0)) (Wait 1) = 101"
proof -
  have h1: "\<forall>k<2. \<exists>e. fails_then_ok 2 k = Rejects e" by (simp add: fails_then_ok_def)
  have h2: "\<exists>v. try_block (fails_then_ok 2 2) = Inr v" by (simp add: fails_then_ok_def)
  have h3: "\<forall>k<101. \<exists>e. fails_then_ok 101 k = Rejects e" by (simp add: fails_then_ok_def)
  have r2: "concat (replicate 2 [GetSession, Wait 1]) = [GetSession, Wait 1, GetSession, Wait 1]"
    by (simp add: numeral_2_eq_2)
  have t: "try_block (fails_then_ok 2 2) = Inr (JObj [(''statusCode'', JNum 200)])"
    by (simp add: fails_then_ok_def)
  from session_fetch_attempts [of 2 "fails_then_ok 2"] h1 h2
  have a: "getNewSession (fails_then_ok 2) 0 =
       ([GetSession, Wait 1, GetSession, Wait 1, GetSession], Inr (JObj [(''statusCode'', JNum 200)]))"
    by (simp only: r2 t) simp
  from session_fetch_attempts [of 101 "fails_then_ok 101"] h3
  have b: "count_list (fst (getNewSession (fails_then_ok 101) 0)) GetSession = 101
     \<and> count_list (fst (getNewSession (fails_then_ok 101) 0)) (Wait 1) = 101"
    by simp
  show ?thesis using t a b by blast
qed

text \<open>
  Claim C1 as written (exactly \<open>min N 100\<close> attempts before giving up) fails: with
  \<open>N = 101\<close> consecutive failures the function gives up with the generic error after
  101 fetches, not 100.
\<close>

theorem session_fetch_attempts_counterexample:
  "snd (getNewSession (fails_then_ok 101) 0) = Inr generic_error
   \<and> count_list (fst (getNewSession (fails_then_ok 101) 0)) GetSession = 101
   \<and> count_list (fst (getNewSession (fails_then_ok 101) 0)) GetSession \<noteq> min 101 100"
proof -
  have "getNewSession (fails_then_ok 101) 0 =
     after (concat (replicate 101 [GetSession, Wait 1]))
       (bind_eff (handleErrorResponse (Some (AxiosError None)))
          (default_error ''Error while getting session...''))"
    by (rule getNewSession_exhausted) (simp_all add: fails_then_ok_def)
  then have "getNewSession (fails_then_ok 101) 0 =
     (concat (replicate 101 [GetSession, Wait 1]), Inr generic_error)"
    by simp
  then show ?thesis by (simp del: replicate.simps replicate_Suc)
qed

text \<open>
  Claim C9. \<open>getNewSession\<close> is a total function (its recursion is bounded by the
  attempt counter, see the termination proof at its definition), and whatever the
  upstream does it fetches at most 101 times, that is, it retries at most 100 times. When
  every attempt throws an error without a response, the handler answers after exactly
  these 101 fetches, with status code 500 and the error string
  \<open>Internal server error\<close>; this holds in both variants.
\<close>

theorem session_fetch_terminates:
  "count_list (fst (getNewSession senv 0)) GetSession \<le> 101
   \<and> count_list (fst (getNewSession_v2 senv 0)) GetSession \<le> 101
   \<and> ((\<forall>k. \<exists>e. senv k = Rejects e \<and> (\<forall>r. e \<noteq> AxiosError (Some r))) \<longrightarrow>
        handleConversation senv cenv req res =
          (concat (replicate 101 [GetSession, Wait 1]),
           Inr (res\<lparr>code := 500, payload := JsonBody (JObj
             [(''status'', JBool False), (''statusCode'', JNum 500),
              (''error'', JStr ''Internal server error'')])\<rparr>))
      \<and> handleChatCompletion senv cenv req res =
          (concat (replicate 101 [GetSession, Wait 1]),
           Inr (res\<lparr>code := 500, payload := JsonBody (JObj
             [(''status'', JBool False), (''statusCode'', JNum 500),
              (''error'', JStr ''Internal server error'')])\<rparr>)))"
proof (intro conjI impI)
  show "count_list (fst (getNewSession senv 0)) GetSession \<le> 101"
    using getNewSession_bound [of senv 0] by simp
  show "count_list (fst (getNewSession_v2 senv 0)) GetSession \<le> 101"
    using getNewSession_v2_bound [of senv 0] by simp
next
  assume a: "\<forall>k. \<exists>e. senv k = Rejects e \<and> (\<forall>r. e \<noteq> AxiosError (Some r))"
  then obtain e where e: "senv 100 = Rejects e" "\<forall>r. e \<noteq> AxiosError (Some r)" by blast
  have f: "\<forall>k<100. \<exists>e. try_block (senv k) = Inl e"
  proof (intro allI impI)
    fix k from a obtain e' where "senv k = Rejects e'" by blast
    then show "\<exists>e. try_block (senv k) = Inl e" by simp
  qed
  have t: "try_block (senv 100) = Inl e" using e by simp
  have h: "handleErrorResponse (Some e) = ([], Inr generic_error)"
    using e by (intro no_response_generic)
  have g1: "getNewSession senv 0 = (concat (replicate 101 [GetSession, Wait 1]), Inr generic_error)"
    using getNewSession_exhausted [OF f t] by (simp add: h)
  have g2: "getNewSession_v2 senv 0 = (concat (replicate 101 [GetSession, Wait 1]), Inr generic_error)"
    using getNewSession_v2_exhausted [OF f t] by (simp add: h)
  have st: "get_prop generic_error ''status'' = Inr (Some (JBool False))"
    by (simp add: generic_error_def)
  show "handleConversation senv cenv req res =
          (concat (replicate 101 [GetSession, Wait 1]),
           Inr (res\<lparr>code := 500, payload := JsonBody (JObj
             [(''status'', JBool False), (''statusCode'', JNum 500),
              (''error'', JStr ''Internal server error'')])\<rparr>))"
    unfolding handleConversation_def g1
    by (simp add: st pure_eff_def del: replicate.simps replicate_Suc) (simp add: generic_error_def)
  show "handleChatCompletion senv cenv req res =
          (concat (replicate 101 [GetSession, Wait 1]),
           Inr (res\<lparr>code := 500, payload := JsonBody (JObj
             [(''status'', JBool False), (''statusCode'', JNum 500),
              (''error'', JStr ''Internal server error'')])\<rparr>))"
    unfolding handleChatCompletion_def g2
    by (simp add: st pure_eff_def del: replicate.simps replicate_Suc) (simp add: generic_error_def)
qed

text \<open>
  Claim C9, witness: a session endpoint that never answers.
\<close>

theorem session_fetch_terminates_witness:
  "(\<forall>k. \<exists>e. (\<lambda>k. Rejects (AxiosError None)) k = Rejects e \<and> (\<forall>r. e \<noteq> AxiosError (Some r)))
   \<and> handleConversation (\<lambda>k. Rejects (AxiosError None)) (\<lambda>b. Resolves \<lparr>status = 200, data = b\<rparr>)
        \<lparr>method = ''POST'', path = ''/v1/chat/completions'', body = Some (JObj [])\<rparr> new_res =
      (concat (replicate 101 [GetSession, Wait 1]),
       Inr \<lparr>code = 500, headers = [], payload = JsonBody (JObj
             [(''status'', JBool False), (''statusCode'', JNum 500),
              (''error'', JStr ''Internal server error'')])\<rparr>)"
proof -
  have h: "\<forall>k. \<exists>e. (\<lambda>k. Rejects (AxiosError None)) k = Rejects e \<and> (\<forall>r. e \<noteq> AxiosError (Some r))"
    by simp
  from session_fetch_terminates [of "\<lambda>k. Rejects (AxiosError None)"
      "\<lambda>b. Resolves \<lparr>status = 200, data = b\<rparr>"
      "\<lparr>method = ''POST'', path = ''/v1/chat/completions'', body = Some (JObj [])\<rparr>" new_res] h
  show ?thesis by (simp add: new_res_def del: replicate.simps replicate_Suc)
qed

section \<open>The guard of the completion call\<close>

text \<open>
  Claim C4. When the session of a completion request is absent or falsy,
  \<open>getCompletionWithOpenAi\<close> returns the generic error (statusCode 500, status false,
  error \<open>Internal server error\<close>) and causes no event at all, in particular no POST to
  the completion endpoint; this holds in both variants.
\<close>

theorem completion_without_session:
  "(\<not> truthy (session c) \<longrightarrow>
      getCompletionWithOpenAi cenv c =
        ([], Inr (JObj [(''status'', JBool False), (''statusCode'', JNum 500),
                        (''error'', JStr ''Internal server error'')])))
   \<and> (\<not> truthy s \<longrightarrow>
      getCompletionWithOpenAi_v2 cenv s =
        ([], Inr (JObj [(''status'', JBool False), (''statusCode'', JNum 500),
                        (''error'', JStr ''Internal server error'')])))"
  by (auto simp: getCompletionWithOpenAi_def getCompletionWithOpenAi_v2_def generic_error_def
      split: option.splits)

text \<open>
  Claim C4, witness: a request without a session, and the empty string as session.
\<close>

theorem completion_without_session_witness:
  "\<not> truthy (session \<lparr>session = None, conversation = Some (JObj [])\<rparr>)
   \<and> getCompletionWithOpenAi (\<lambda>b. Resolves \<lparr>status = 200, data = b\<rparr>)
        \<lparr>session = None, conversation = Some (JObj [])\<rparr> =
        ([], Inr (JObj [(''status'', JBool False), (''statusCode'', JNum 500),
                        (''error'', JStr ''Internal server error'')]))
   \<and> \<not> truthy (Some (JStr []))
   \<and> getCompletionWithOpenAi_v2 (\<lambda>b. Resolves \<lparr>status = 200, data = b\<rparr>) (Some (JStr [])) =
        ([], Inr (JObj [(''status'', JBool False), (''statusCode'', JNum 500),
                        (''error'', JStr ''Internal server error'')]))"
  using completion_without_session [of "\<lparr>session = None, conversation = Some (JObj [])\<rparr>"
      "\<lambda>b. Resolves \<lparr>status = 200, data = b\<rparr>" "Some (JStr [])"]
  by simp

section \<open>The handler and the completion call\<close>

lemma after_Nil [simp]: "after [] m = m"
  by (simp add: after_def)

lemma error_shaped_generic [simp]: "error_shaped generic_error"
  by (simp add: error_shaped_def generic_error_def)

lemma getCompletionWithOpenAi_result:
  "snd (getCompletionWithOpenAi cenv c) = Inr r \<Longrightarrow>
     error_shaped r \<or> (truthy (session c) \<and> try_block (cenv (to_json c)) = Inr r)"
  by (auto simp: getCompletionWithOpenAi_def split: if_splits sum.splits
      dest: handleErrorResponse_shape give_up_shape)

lemma getCompletionWithOpenAi_v2_result:
  "snd (getCompletionWithOpenAi_v2 cenv s) = Inr r \<Longrightarrow>
     error_shaped r \<or> (\<exists>x. s = Some x \<and> truthy s \<and> try_block (cenv x) = Inr r)"
  by (auto simp: getCompletionWithOpenAi_v2_def split: if_splits sum.splits option.splits
      dest: handleErrorResponse_shape)

lemma getNewSession_statusCode:
  "snd (getNewSession senv n) = Inr r \<Longrightarrow> \<exists>c. get_prop r ''statusCode'' = Inr (Some (JNum c))"
  using getNewSession_result [of senv n r] error_shaped_statusCode try_block_statusCode by blast

lemma getNewSession_v2_statusCode:
  "snd (getNewSession_v2 senv n) = Inr r \<Longrightarrow> \<exists>c. get_prop r ''statusCode'' = Inr (Some (JNum c))"
  using getNewSession_v2_result [of senv n r] error_shaped_statusCode try_block_statusCode by blast

lemma getCompletionWithOpenAi_statusCode:
  "snd (getCompletionWithOpenAi cenv c) = Inr r \<Longrightarrow>
     \<exists>n. get_prop r ''statusCode'' = Inr (Some (JNum n))"
  using getCompletionWithOpenAi_result [of cenv c r] error_shaped_statusCode try_block_statusCode
  by blast

lemma getCompletionWithOpenAi_v2_statusCode:
  "snd (getCompletionWithOpenAi_v2 cenv s) = Inr r \<Longrightarrow>
     \<exists>n. get_prop r ''statusCode'' = Inr (Some (JNum n))"
  using getCompletionWithOpenAi_v2_result [of cenv s r] error_shaped_statusCode try_block_statusCode
  by blast

lemma relay_numeric:
  "get_prop r ''statusCode'' = Inr (Some (JNum c)) \<Longrightarrow>
     relay r res = ([], Inr (res\<lparr>code := c, payload := JsonBody r\<rparr>))"
  by (simp add: relay_def pure_eff_def)

lemma no_post_in_session:
  "PostCompletion b \<notin> set (fst (getNewSession senv n))"
  using getNewSession_events [of senv n] by auto

lemma no_post_in_session_v2:
  "PostCompletion b \<notin> set (fst (getNewSession_v2 senv n))"
  using getNewSession_v2_events [of senv n] by auto

lemma handleConversation_failed:
  assumes "getNewSession senv 0 = (evs, Inr s)" "get_prop s ''status'' = Inr st" "\<not> truthy st"
  shows "handleConversation senv cenv req res = after evs (relay s res)"
  using assms by (simp add: handleConversation_def pure_eff_def)

lemma handleConversation_ok:
  assumes "getNewSession senv 0 = (evs, Inr s)" "get_prop s ''status'' = Inr st" "truthy st"
    "get_prop s ''data'' = Inr d"
  shows "handleConversation senv cenv req res =
     after evs (bind_eff (getCompletionWithOpenAi cenv \<lparr>session = d, conversation = body req\<rparr>)
        (\<lambda>r. relay r res))"
  using assms by (simp add: handleConversation_def pure_eff_def)

lemma handleChatCompletion_failed:
  assumes "getNewSession_v2 senv 0 = (evs, Inr s)" "get_prop s ''status'' = Inr st" "\<not> truthy st"
  shows "handleChatCompletion senv cenv req res = after evs (relay s res)"
  using assms by (simp add: handleChatCompletion_def pure_eff_def)

lemma handleChatCompletion_ok:
  assumes "getNewSession_v2 senv 0 = (evs, Inr s)" "get_prop s ''status'' = Inr st" "truthy st"
    "get_prop s ''data'' = Inr d"
  shows "handleChatCompletion senv cenv req res =
     after evs (bind_eff (getCompletionWithOpenAi_v2 cenv d) (\<lambda>r. relay r res))"
  using assms by (simp add: handleChatCompletion_def pure_eff_def)

lemma guard_v1:
  "\<not> truthy d \<Longrightarrow> getCompletionWithOpenAi cenv \<lparr>session = d, conversation = b\<rparr> = ([], Inr generic_error)"
  by (simp add: getCompletionWithOpenAi_def)

lemma guard_v2:
  "\<not> truthy d \<Longrightarrow> getCompletionWithOpenAi_v2 cenv d = ([], Inr generic_error)"
  by (auto simp: getCompletionWithOpenAi_v2_def split: option.splits)

text \<open>
  Claim C10. When the session fetch returns a result with \<open>status: true\<close> whose
  \<open>data\<close> is absent or falsy, the handler goes on to the completion stage, the guard
  on the session fires there, and the caller receives status code 500 with the generic
  error as body; no POST to the completion endpoint is made. This holds in both variants.
\<close>

theorem session_without_data:
  "(snd (getNewSession senv 0) = Inr s \<and> get_prop s ''status'' = Inr (Some (JBool True))
      \<and> get_prop s ''data'' = Inr d \<and> \<not> truthy d \<longrightarrow>
      handleConversation senv cenv req res =
        (fst (getNewSession senv 0),
         Inr (res\<lparr>code := 500, payload := JsonBody (JObj
           [(''status'', JBool False), (''statusCode'', JNum 500),
            (''error'', JStr ''Internal server error'')])\<rparr>))
      \<and> (\<forall>b. PostCompletion b \<notin> set (fst (handleConversation senv cenv req res))))
   \<and> (snd (getNewSession_v2 senv 0) = Inr s \<and> get_prop s ''status'' = Inr (Some (JBool True))
      \<and> get_prop s ''data'' = Inr d \<and> \<not> truthy d \<longrightarrow>
      handleChatCompletion senv cenv req res =
        (fst (getNewSession_v2 senv 0),
         Inr (res\<lparr>code := 500, payload := JsonBody (JObj
           [(''status'', JBool False), (''statusCode'', JNum 500),
            (''error'', JStr ''Internal server error'')])\<rparr>))
      \<and> (\<forall>b. PostCompletion b \<notin> set (fst (handleChatCompletion senv cenv req res))))"
proof (intro conjI impI)
  assume a: "snd (getNewSession senv 0) = Inr s \<and> get_prop s ''status'' = Inr (Some (JBool True))
      \<and> get_prop s ''data'' = Inr d \<and> \<not> truthy d"
  then have g: "getNewSession senv 0 = (fst (getNewSession senv 0), Inr s)"
    by (metis prod.collapse)
  have h: "handleConversation senv cenv req res =
     after (fst (getNewSession senv 0))
       (bind_eff (getCompletionWithOpenAi cenv \<lparr>session = d, conversation = body req\<rparr>)
        (\<lambda>r. relay r res))"
    using a by (intro handleConversation_ok [OF g]) auto
  show e: "handleConversation senv cenv req res =
        (fst (getNewSession senv 0),
         Inr (res\<lparr>code := 500, payload := JsonBody (JObj
           [(''status'', JBool False), (''statusCode'', JNum 500),
            (''error'', JStr ''Internal server error'')])\<rparr>))"
    using a by (simp add: h guard_v1) (simp add: generic_error_def)
  show "\<forall>b. PostCompletion b \<notin> set (fst (handleConversation senv cenv req res))"
    by (simp add: e no_post_in_session)
next
  assume a: "snd (getNewSession_v2 senv 0) = Inr s \<and> get_prop s ''status'' = Inr (Some (JBool True))
      \<and> get_prop s ''data'' = Inr d \<and> \<not> truthy d"
  then have g: "getNewSession_v2 senv 0 = (fst (getNewSession_v2 senv 0), Inr s)"
    by (metis prod.collapse)
  have h: "handleChatCompletion senv cenv req res =
     after (fst (getNewSession_v2 senv 0))
       (bind_eff (getCompletionWithOpenAi_v2 cenv d) (\<lambda>r. relay r res))"
    using a by (intro handleChatCompletion_ok [OF g]) auto
  show e: "handleChatCompletion senv cenv req res =
        (fst (getNewSession_v2 senv 0),
         Inr (res\<lparr>code := 500, payload := JsonBody (JObj
           [(''status'', JBool False), (''statusCode'', JNum 500),
            (''error'', JStr ''Internal server error'')])\<rparr>))"
    using a by (simp add: h guard_v2) (simp add: generic_error_def)
  show "\<forall>b. PostCompletion b \<notin> set (fst (handleChatCompletion senv cenv req res))"
    by (simp add: e no_post_in_session_v2)
qed

text \<open>
  Claim C10, witness: a session endpoint that answers \<open>{status: true}\<close>.
\<close>

theorem session_without_data_witness:
  "getNewSession session_no_data 0 =
     ([GetSession], Inr (JObj [(''status'', JBool True), (''statusCode'', JNum 200)]))
   \<and> handleConversation session_no_data echo post_req new_res =
        ([GetSession],
         Inr \<lparr>code = 500, headers = [], payload = JsonBody (JObj
           [(''status'', JBool False), (''statusCode'', JNum 500),
            (''error'', JStr ''Internal server error'')])\<rparr>)"
proof -
  have g: "getNewSession session_no_data 0 =
     ([GetSession], Inr (JObj [(''status'', JBool True), (''statusCode'', JNum 200)]))"
    by (rule getNewSession_Inr) (simp add: session_no_data_def)
  from session_without_data [of session_no_data
      "JObj [(''status'', JBool True), (''statusCode'', JNum 200)]" None echo post_req new_res]
  have "handleConversation session_no_data echo post_req new_res =
        ([GetSession],
         Inr \<lparr>code = 500, headers = [], payload = JsonBody (JObj
           [(''status'', JBool False), (''statusCode'', JNum 500),
            (''error'', JStr ''Internal server error'')])\<rparr>)"
    by (simp add: g new_res_def)
  with g show ?thesis by simp
qed

section \<open>What the handler relays\<close>

lemma get_prop_defined:
  "get_prop s k = Inr x \<Longrightarrow> \<exists>d. get_prop s k' = Inr d"
  by (cases s) auto

lemma getCompletionWithOpenAi_events:
  "fst (getCompletionWithOpenAi cenv c) = [] \<or>
   (\<exists>logs. fst (getCompletionWithOpenAi cenv c) = PostCompletion (to_json c) # logs
      \<and> set logs \<subseteq> range (\<lambda>(n, b). LogError n b))"
proof (cases "truthy (session c)")
  case False
  then show ?thesis by (simp add: getCompletionWithOpenAi_def)
next
  case True
  show ?thesis
  proof (cases "try_block (cenv (to_json c))")
    case (Inr v)
    with True show ?thesis by (simp add: getCompletionWithOpenAi_def)
  next
    case (Inl e)
    with True give_up_events [of e "''Error while getting completions...''"]
    show ?thesis by (simp add: getCompletionWithOpenAi_def)
  qed
qed

lemma getCompletionWithOpenAi_v2_events:
  "fst (getCompletionWithOpenAi_v2 cenv s) = [] \<or>
   (\<exists>x logs. s = Some x \<and> fst (getCompletionWithOpenAi_v2 cenv s) = PostCompletion x # logs
      \<and> set logs \<subseteq> range (\<lambda>(n, b). LogError n b))"
proof (cases s)
  case None
  then show ?thesis by (simp add: getCompletionWithOpenAi_v2_def)
next
  case (Some x)
  show ?thesis
  proof (cases "truthy (Some x)")
    case False
    with Some show ?thesis by (simp add: getCompletionWithOpenAi_v2_def)
  next
    case True
    show ?thesis
    proof (cases "try_block (cenv x)")
      case (Inr v)
      with True Some show ?thesis by (simp add: getCompletionWithOpenAi_v2_def)
    next
      case (Inl e)
      with True Some handleErrorResponse_events [of "Some e"]
      show ?thesis by (simp add: getCompletionWithOpenAi_v2_def)
    qed
  qed
qed

lemma count_post_le_1:
  assumes "evs = [] \<or>
    (\<exists>x logs. evs = PostCompletion x # logs \<and> set logs \<subseteq> range (\<lambda>(n, b). LogError n b))"
  shows "count_list evs (PostCompletion b) \<le> 1"
proof -
  { fix logs assume "set logs \<subseteq> range (\<lambda>(n, b). LogError n b)"
    then have "PostCompletion b \<notin> set logs" by auto
    then have "count_list logs (PostCompletion b) = 0" by simp }
  with assms show ?thesis by auto
qed

lemma count_post_session [simp]:
  "count_list (fst (getNewSession senv n)) (PostCompletion b) = 0"
  using no_post_in_session [of b senv n] by simp

lemma count_post_session_v2 [simp]:
  "count_list (fst (getNewSession_v2 senv n)) (PostCompletion b) = 0"
  using no_post_in_session_v2 [of b senv n] by simp

lemma relay_after_completion:
  assumes "snd m = Inr r" "get_prop r ''statusCode'' = Inr (Some (JNum c))"
  shows "bind_eff m (\<lambda>r. relay r res) = (fst m, Inr (res\<lparr>code := c, payload := JsonBody r\<rparr>))"
proof -
  from assms(1) have "m = (fst m, Inr r)" by (metis prod.collapse)
  then have "bind_eff m (\<lambda>r. relay r res) = after (fst m) (relay r res)"
    by (metis bind_eff_Inr)
  then show ?thesis using assms(2) by (simp add: relay_numeric)
qed

lemma fst_relay [simp]: "fst (relay r res) = []"
  by (cases "get_prop r ''statusCode''")
     (auto simp: relay_def pure_eff_def split: option.splits json.splits)

lemma fst_bind_relay:
  "fst (bind_eff m (\<lambda>r. relay r res)) = fst m"
  by (cases m; cases "snd m") auto

lemma handleConversation_relays:
  "(snd (getNewSession senv 0) = Inr s \<and> get_prop s ''status'' = Inr (Some (JBool False)) \<longrightarrow>
      (\<exists>c. get_prop s ''statusCode'' = Inr (Some (JNum c)) \<and>
           handleConversation senv cenv req res =
             (fst (getNewSession senv 0), Inr (res\<lparr>code := c, payload := JsonBody s\<rparr>)))
      \<and> (\<forall>b. PostCompletion b \<notin> set (fst (handleConversation senv cenv req res))))
   \<and> (snd (getNewSession senv 0) = Inr s \<and> get_prop s ''status'' = Inr (Some (JBool True)) \<longrightarrow>
      (\<exists>d. get_prop s ''data'' = Inr d \<and>
         handleConversation senv cenv req res =
           after (fst (getNewSession senv 0))
             (bind_eff (getCompletionWithOpenAi cenv \<lparr>session = d, conversation = body req\<rparr>)
                (\<lambda>r. relay r res))
         \<and> (\<forall>b. count_list (fst (handleConversation senv cenv req res)) (PostCompletion b) \<le> 1)
         \<and> (\<forall>r. snd (getCompletionWithOpenAi cenv \<lparr>session = d, conversation = body req\<rparr>) = Inr r \<longrightarrow>
              (\<exists>c. get_prop r ''statusCode'' = Inr (Some (JNum c)) \<and>
                 handleConversation senv cenv req res =
                   (fst (getNewSession senv 0)
                      @ fst (getCompletionWithOpenAi cenv \<lparr>session = d, conversation = body req\<rparr>),
                    Inr (res\<lparr>code := c, payload := JsonBody r\<rparr>))))))"
proof (intro conjI impI)
  assume a: "snd (getNewSession senv 0) = Inr s \<and> get_prop s ''status'' = Inr (Some (JBool False))"
  then have g: "getNewSession senv 0 = (fst (getNewSession senv 0), Inr s)"
    by (metis prod.collapse)
  from a obtain c where c: "get_prop s ''statusCode'' = Inr (Some (JNum c))"
    using getNewSession_statusCode by blast
  have h: "handleConversation senv cenv req res =
      (fst (getNewSession senv 0), Inr (res\<lparr>code := c, payload := JsonBody s\<rparr>))"
    using a handleConversation_failed [OF g, of "Some (JBool False)" cenv req res]
    by (simp add: relay_numeric [OF c])
  from c h show "\<exists>c. get_prop s ''statusCode'' = Inr (Some (JNum c)) \<and>
           handleConversation senv cenv req res =
             (fst (getNewSession senv 0), Inr (res\<lparr>code := c, payload := JsonBody s\<rparr>))"
    by blast
  show "\<forall>b. PostCompletion b \<notin> set (fst (handleConversation senv cenv req res))"
    by (simp add: h no_post_in_session)
next
  assume a: "snd (getNewSession senv 0) = Inr s \<and> get_prop s ''status'' = Inr (Some (JBool True))"
  then have g: "getNewSession senv 0 = (fst (getNewSession senv 0), Inr s)"
    by (metis prod.collapse)
  from a obtain d where d: "get_prop s ''data'' = Inr d"
    using get_prop_defined by blast
  let ?c = "getCompletionWithOpenAi cenv \<lparr>session = d, conversation = body req\<rparr>"
  have h: "handleConversation senv cenv req res =
      after (fst (getNewSession senv 0)) (bind_eff ?c (\<lambda>r. relay r res))"
    using a d handleConversation_ok [OF g, of "Some (JBool True)" d cenv req res] by simp
  have cnt: "\<forall>b. count_list (fst (handleConversation senv cenv req res)) (PostCompletion b) \<le> 1"
  proof -
    have "\<And>b. count_list (fst ?c) (PostCompletion b) \<le> 1"
      by (rule count_post_le_1)
         (use getCompletionWithOpenAi_events [of cenv "\<lparr>session = d, conversation = body req\<rparr>"]
           in blast)
    then show ?thesis by (simp add: h fst_bind_relay)
  qed
  have rel: "\<forall>r. snd ?c = Inr r \<longrightarrow>
              (\<exists>c. get_prop r ''statusCode'' = Inr (Some (JNum c)) \<and>
                 handleConversation senv cenv req res =
                   (fst (getNewSession senv 0) @ fst ?c,
                    Inr (res\<lparr>code := c, payload := JsonBody r\<rparr>)))"
  proof (intro allI impI)
    fix r assume r: "snd ?c = Inr r"
    then obtain c where c: "get_prop r ''statusCode'' = Inr (Some (JNum c))"
      using getCompletionWithOpenAi_statusCode by blast
    have "handleConversation senv cenv req res =
        (fst (getNewSession senv 0) @ fst ?c, Inr (res\<lparr>code := c, payload := JsonBody r\<rparr>))"
      by (simp add: h relay_after_completion [OF r c])
    with c show "\<exists>c. get_prop r ''statusCode'' = Inr (Some (JNum c)) \<and>
                 handleConversation senv cenv req res =
                   (fst (getNewSession senv 0) @ fst ?c,
                    Inr (res\<lparr>code := c, payload := JsonBody r\<rparr>))" by blast
  qed
  from d h cnt rel
  show "\<exists>d. get_prop s ''data'' = Inr d \<and>
         handleConversation senv cenv req res =
           after (fst (getNewSession senv 0))
             (bind_eff (getCompletionWithOpenAi cenv \<lparr>session = d, conversation = body req\<rparr>)
                (\<lambda>r. relay r res))
         \<and> (\<forall>b. count_list (fst (handleConversation senv cenv req res)) (PostCompletion b) \<le> 1)
         \<and> (\<forall>r. snd (getCompletionWithOpenAi cenv \<lparr>session = d, conversation = body req\<rparr>) = Inr r \<longrightarrow>
              (\<exists>c. get_prop r ''statusCode'' = Inr (Some (JNum c)) \<and>
                 handleConversation senv cenv req res =
                   (fst (getNewSession senv 0)
                      @ fst (getCompletionWithOpenAi cenv \<lparr>session = d, conversation = body req\<rparr>),
                    Inr (res\<lparr>code := c, payload := JsonBody r\<rparr>))))"
    by blast
qed

lemma handleChatCompletion_relays:
  "(snd (getNewSession_v2 senv 0) = Inr s \<and> get_prop s ''status'' = Inr (Some (JBool False)) \<longrightarrow>
      (\<exists>c. get_prop s ''statusCode'' = Inr (Some (JNum c)) \<and>
           handleChatCompletion senv cenv req res =
             (fst (getNewSession_v2 senv 0), Inr (res\<lparr>code := c, payload := JsonBody s\<rparr>)))
      \<and> (\<forall>b. PostCompletion b \<notin> set (fst (handleChatCompletion senv cenv req res))))
   \<and> (snd (getNewSession_v2 senv 0) = Inr s \<and> get_prop s ''status'' = Inr (Some (JBool True)) \<longrightarrow>
      (\<exists>d. get_prop s ''data'' = Inr d \<and>
         handleChatCompletion senv cenv req res =
           after (fst (getNewSession_v2 senv 0))
             (bind_eff (getCompletionWithOpenAi_v2 cenv d)
                (\<lambda>r. relay r res))
         \<and> (\<forall>b. count_list (fst (handleChatCompletion senv cenv req res)) (PostCompletion b) \<le> 1)
         \<and> (\<forall>r. snd (getCompletionWithOpenAi_v2 cenv d) = Inr r \<longrightarrow>
              (\<exists>c. get_prop r ''statusCode'' = Inr (Some (JNum c)) \<and>
                 handleChatCompletion senv cenv req res =
                   (fst (getNewSession_v2 senv 0)
                      @ fst (getCompletionWithOpenAi_v2 cenv d),
                    Inr (res\<lparr>code := c, payload := JsonBody r\<rparr>))))))"
proof (intro conjI impI)
  assume a: "snd (getNewSession_v2 senv 0) = Inr s \<and> get_prop s ''status'' = Inr (Some (JBool False))"
  then have g: "getNewSession_v2 senv 0 = (fst (getNewSession_v2 senv 0), Inr s)"
    by (metis prod.collapse)
  from a obtain c where c: "get_prop s ''statusCode'' = Inr (Some (JNum c))"
    using getNewSession_v2_statusCode by blast
  have h: "handleChatCompletion senv cenv req res =
      (fst (getNewSession_v2 senv 0), Inr (res\<lparr>code := c, payload := JsonBody s\<rparr>))"
    using a handleChatCompletion_failed [OF g, of "Some (JBool False)" cenv req res]
    by (simp add: relay_numeric [OF c])
  from c h show "\<exists>c. get_prop s ''statusCode'' = Inr (Some (JNum c)) \<and>
           handleChatCompletion senv cenv req res =
             (fst (getNewSession_v2 senv 0), Inr (res\<lparr>code := c, payload := JsonBody s\<rparr>))"
    by blast
  show "\<forall>b. PostCompletion b \<notin> set (fst (handleChatCompletion senv cenv req res))"
    by (simp add: h no_post_in_session_v2)
next
  assume a: "snd (getNewSession_v2 senv 0) = Inr s \<and> get_prop s ''status'' = Inr (Some (JBool True))"
  then have g: "getNewSession_v2 senv 0 = (fst (getNewSession_v2 senv 0), Inr s)"
    by (metis prod.collapse)
  from a obtain d where d: "get_prop s ''data'' = Inr d"
    using get_prop_defined by blast
  let ?c = "getCompletionWithOpenAi_v2 cenv d"
  have h: "handleChatCompletion senv cenv req res =
      after (fst (getNewSession_v2 senv 0)) (bind_eff ?c (\<lambda>r. relay r res))"
    using a d handleChatCompletion_ok [OF g, of "Some (JBool True)" d cenv req res] by simp
  have cnt: "\<forall>b. count_list (fst (handleChatCompletion senv cenv req res)) (PostCompletion b) \<le> 1"
  proof -
    have "\<And>b. count_list (fst ?c) (PostCompletion b) \<le> 1"
      by (rule count_post_le_1)
         (use getCompletionWithOpenAi_v2_events [of cenv d] in blast)
    then show ?thesis by (simp add: h fst_bind_relay)
  qed
  have rel: "\<forall>r. snd ?c = Inr r \<longrightarrow>
              (\<exists>c. get_prop r ''statusCode'' = Inr (Some (JNum c)) \<and>
                 handleChatCompletion senv cenv req res =
                   (fst (getNewSession_v2 senv 0) @ fst ?c,
                    Inr (res\<lparr>code := c, payload := JsonBody r\<rparr>)))"
  proof (intro allI impI)
    fix r assume r: "snd ?c = Inr r"
    then obtain c where c: "get_prop r ''statusCode'' = Inr (Some (JNum c))"
      using getCompletionWithOpenAi_v2_statusCode by blast
    have "handleChatCompletion senv cenv req res =
        (fst (getNewSession_v2 senv 0) @ fst ?c, Inr (res\<lparr>code := c, payload := JsonBody r\<rparr>))"
      by (simp add: h relay_after_completion [OF r c])
    with c show "\<exists>c. get_prop r ''statusCode'' = Inr (Some (JNum c)) \<and>
                 handleChatCompletion senv cenv req res =
                   (fst (getNewSession_v2 senv 0) @ fst ?c,
                    Inr (res\<lparr>code := c, payload := JsonBody r\<rparr>))" by blast
  qed
  from d h cnt rel
  show "\<exists>d. get_prop s ''data'' = Inr d \<and>
         handleChatCompletion senv cenv req res =
           after (fst (getNewSession_v2 senv 0))
             (bind_eff (getCompletionWithOpenAi_v2 cenv d)
                (\<lambda>r. relay r res))
         \<and> (\<forall>b. count_list (fst (handleChatCompletion senv cenv req res)) (PostCompletion b) \<le> 1)
         \<and> (\<forall>r. snd (getCompletionWithOpenAi_v2 cenv d) = Inr r \<longrightarrow>
              (\<exists>c. get_prop r ''statusCode'' = Inr (Some (JNum c)) \<and>
                 handleChatCompletion senv cenv req res =
                   (fst (getNewSession_v2 senv 0)
                      @ fst (getCompletionWithOpenAi_v2 cenv d),
                    Inr (res\<lparr>code := c, payload := JsonBody r\<rparr>))))"
    by blast
qed

text \<open>
  Claim C8. When the session result has \<open>status: false\<close>, the handler answers with
  that result's \<open>statusCode\<close> and the result itself as body, and no POST to the
  completion endpoint happens. When it has \<open>status: true\<close>, the handler takes its
  \<open>data\<close> as the session, calls the completion stage once (at most one POST), and
  answers with the completion result's \<open>statusCode\<close> and the result itself as body,
  whether that result reports success or failure. First the two-stage variant, then the
  session-only one.
\<close>

theorem handler_relays:
  "((snd (getNewSession senv 0) = Inr s \<and> get_prop s ''status'' = Inr (Some (JBool False)) \<longrightarrow>
      (\<exists>c. get_prop s ''statusCode'' = Inr (Some (JNum c)) \<and>
           handleConversation senv cenv req res =
             (fst (getNewSession senv 0), Inr (res\<lparr>code := c, payload := JsonBody s\<rparr>)))
      \<and> (\<forall>b. PostCompletion b \<notin> set (fst (handleConversation senv cenv req res))))
   \<and> (snd (getNewSession senv 0) = Inr s \<and> get_prop s ''status'' = Inr (Some (JBool True)) \<longrightarrow>
      (\<exists>d. get_prop s ''data'' = Inr d \<and>
         handleConversation senv cenv req res =
           after (fst (getNewSession senv 0))
             (bind_eff (getCompletionWithOpenAi cenv \<lparr>session = d, conversation = body req\<rparr>)
                (\<lambda>r. relay r res))
         \<and> (\<forall>b. count_list (fst (handleConversation senv cenv req res)) (PostCompletion b) \<le> 1)
         \<and> (\<forall>r. snd (getCompletionWithOpenAi cenv \<lparr>session = d, conversation = body req\<rparr>) = Inr r \<longrightarrow>
              (\<exists>c. get_prop r ''statusCode'' = Inr (Some (JNum c)) \<and>
                 handleConversation senv cenv req res =
                   (fst (getNewSession senv 0)
                      @ fst (getCompletionWithOpenAi cenv \<lparr>session = d, conversation = body req\<rparr>),
                    Inr (res\<lparr>code := c, payload := JsonBody r\<rparr>)))))))
   \<and> ((snd (getNewSession_v2 senv 0) = Inr s \<and> get_prop s ''status'' = Inr (Some (JBool False)) \<longrightarrow>
      (\<exists>c. get_prop s ''statusCode'' = Inr (Some (JNum c)) \<and>
           handleChatCompletion senv cenv req res =
             (fst (getNewSession_v2 senv 0), Inr (res\<lparr>code := c, payload := JsonBody s\<rparr>)))
      \<and> (\<forall>b. PostCompletion b \<notin> set (fst (handleChatCompletion senv cenv req res))))
   \<and> (snd (getNewSession_v2 senv 0) = Inr s \<and> get_prop s ''status'' = Inr (Some (JBool True)) \<longrightarrow>
      (\<exists>d. get_prop s ''data'' = Inr d \<and>
         handleChatCompletion senv cenv req res =
           after (fst (getNewSession_v2 senv 0))
             (bind_eff (getCompletionWithOpenAi_v2 cenv d)
                (\<lambda>r. relay r res))
         \<and> (\<forall>b. count_list (fst (handleChatCompletion senv cenv req res)) (PostCompletion b) \<le> 1)
         \<and> (\<forall>r. snd (getCompletionWithOpenAi_v2 cenv d) = Inr r \<longrightarrow>
              (\<exists>c. get_prop r ''statusCode'' = Inr (Some (JNum c)) \<and>
                 handleChatCompletion senv cenv req res =
                   (fst (getNewSession_v2 senv 0)
                      @ fst (getCompletionWithOpenAi_v2 cenv d),
                    Inr (res\<lparr>code := c, payload := JsonBody r\<rparr>)))))))"
  using handleConversation_relays [of senv s cenv req res]
    handleChatCompletion_relays [of senv s cenv req res]
  by (rule conjI)

text \<open>
  Claim C8, witness: a session endpoint that refuses with \<open>status: false\<close>, and one
  that hands out a session while the completion endpoint does not answer.
\<close>

theorem handler_relays_witness:
  "handleConversation session_refused echo post_req new_res =
     ([GetSession],
      Inr \<lparr>code = 200, headers = [], payload = JsonBody (JObj
        [(''status'', JBool False), (''error'', JStr ''busy''), (''statusCode'', JNum 200)])\<rparr>)
   \<and> handleConversation (session_ok (JObj [(''token'', JStr ''abc'')])) (\<lambda>b. Rejects (AxiosError None))
        post_req new_res =
     ([GetSession, PostCompletion (JObj [(''session'', JObj [(''token'', JStr ''abc'')]),
         (''conversation'', JObj [(''model'', JStr ''gpt''), (''messages'', JArr [] [])])])],
      Inr \<lparr>code = 500, headers = [], payload = JsonBody (JObj
        [(''status'', JBool False), (''statusCode'', JNum 500),
         (''error'', JStr ''Internal server error'')])\<rparr>)"
proof -
  have g1: "getNewSession session_refused 0 =
     ([GetSession], Inr (JObj [(''status'', JBool False), (''error'', JStr ''busy''),
        (''statusCode'', JNum 200)]))"
    by (rule getNewSession_Inr) (simp add: session_refused_def)
  have g2: "getNewSession (session_ok (JObj [(''token'', JStr ''abc'')])) 0 =
     ([GetSession], Inr (JObj [(''statusCode'', JNum 200), (''status'', JBool True),
        (''data'', JObj [(''token'', JStr ''abc'')])]))"
    by (rule getNewSession_Inr) (simp add: session_ok_def)
  have c: "getCompletionWithOpenAi (\<lambda>b. Rejects (AxiosError None))
       \<lparr>session = Some (JObj [(''token'', JStr ''abc'')]), conversation = body post_req\<rparr> =
     ([PostCompletion (JObj [(''session'', JObj [(''token'', JStr ''abc'')]),
         (''conversation'', JObj [(''model'', JStr ''gpt''), (''messages'', JArr [] [])])])],
      Inr generic_error)"
    by (simp add: getCompletionWithOpenAi_def to_json_def post_req_def)
  from handler_relays [of session_refused
      "JObj [(''status'', JBool False), (''error'', JStr ''busy''), (''statusCode'', JNum 200)]"
      echo post_req new_res]
  have a: "handleConversation session_refused echo post_req new_res =
     ([GetSession],
      Inr \<lparr>code = 200, headers = [], payload = JsonBody (JObj
        [(''status'', JBool False), (''error'', JStr ''busy''), (''statusCode'', JNum 200)])\<rparr>)"
    by (simp add: g1 new_res_def)
  from handler_relays [of "session_ok (JObj [(''token'', JStr ''abc'')])"
      "JObj [(''statusCode'', JNum 200), (''status'', JBool True),
        (''data'', JObj [(''token'', JStr ''abc'')])]"
      "\<lambda>b. Rejects (AxiosError None)" post_req new_res]
  have b: "handleConversation (session_ok (JObj [(''token'', JStr ''abc'')])) (\<lambda>b. Rejects (AxiosError None))
        post_req new_res =
     ([GetSession, PostCompletion (JObj [(''session'', JObj [(''token'', JStr ''abc'')]),
         (''conversation'', JObj [(''model'', JStr ''gpt''), (''messages'', JArr [] [])])])],
      Inr \<lparr>code = 500, headers = [], payload = JsonBody (JObj
        [(''status'', JBool False), (''statusCode'', JNum 500),
         (''error'', JStr ''Internal server error'')])\<rparr>)"
    by (simp add: g2 c new_res_def generic_error_def relay_def pure_eff_def)
  from a b show ?thesis by simp
qed

section \<open>What triggers a retry\<close>

lemma getNewSession_starts:
  "\<exists>rest. fst (getNewSession env n) = GetSession # rest"
  by (cases "try_block (env 0)"; cases "n < 100")
     (auto simp: getNewSession.simps [of env n] newSessionRetries_def)

text \<open>
  Claim C2 as written (an upstream HTTP error response is returned on the first attempt
  and never retried) fails: the HTTP client raises a 404 answer as an error that carries
  the response, the \<open>catch\<close> block retries it like any other error, and the caller
  gets the result of the second fetch.
\<close>

theorem http_error_retried_counterexample:
  "getNewSession http_error_then_ok 0 =
     ([GetSession, Wait 1, GetSession],
      Inr (JObj [(''status'', JBool True), (''data'', JObj []), (''statusCode'', JNum 200)]))
   \<and> count_list (fst (getNewSession http_error_then_ok 0)) GetSession = 2"
proof -
  have "getNewSession http_error_then_ok 0 =
      after [GetSession, Wait 1] (getNewSession (\<lambda>k. http_error_then_ok (Suc k)) (Suc 0))"
    by (rule getNewSession_retry) (simp_all add: http_error_then_ok_def)
  moreover have "getNewSession (\<lambda>k. http_error_then_ok (Suc k)) (Suc 0) =
      ([GetSession], Inr (JObj [(''status'', JBool True), (''data'', JObj []), (''statusCode'', JNum 200)]))"
    by (rule getNewSession_Inr) (simp add: http_error_then_ok_def)
  ultimately show ?thesis by simp
qed

text \<open>
  Claim C2, as the code has it. A response that the client resolves with an object (or
  array) body is returned on the first attempt, with \<open>statusCode\<close> set to its status,
  whatever that status and whatever its \<open>status\<close> flag. Every error the fetch throws,
  an error carrying an upstream HTTP response included, is followed by the wait and a
  further fetch as long as fewer than 100 retries were made.
\<close>

theorem session_retry_trigger:
  "(senv 0 = Resolves r \<and> set_prop (data r) ''statusCode'' (JNum (status r)) = Inr v \<longrightarrow>
      getNewSession senv n = ([GetSession], Inr v))
   \<and> (senv 0 = Rejects e \<and> n < 100 \<longrightarrow>
      getNewSession senv n = after [GetSession, Wait 1] (getNewSession (\<lambda>k. senv (Suc k)) (n + 1))
      \<and> take 3 (fst (getNewSession senv n)) = [GetSession, Wait 1, GetSession])"
proof (intro conjI impI)
  assume "senv 0 = Resolves r \<and> set_prop (data r) ''statusCode'' (JNum (status r)) = Inr v"
  then show "getNewSession senv n = ([GetSession], Inr v)"
    by (intro getNewSession_Inr) simp
next
  assume a: "senv 0 = Rejects e \<and> n < 100"
  then show g: "getNewSession senv n =
      after [GetSession, Wait 1] (getNewSession (\<lambda>k. senv (Suc k)) (n + 1))"
    using getNewSession_retry [of senv e n] by simp
  obtain rest where "fst (getNewSession (\<lambda>k. senv (Suc k)) (n + 1)) = GetSession # rest"
    using getNewSession_starts by blast
  then show "take 3 (fst (getNewSession senv n)) = [GetSession, Wait 1, GetSession]"
    by (simp add: g)
qed

text \<open>
  Claim C2, witness: a resolved answer with status 404, and a thrown one.
\<close>

theorem session_retry_trigger_witness:
  "getNewSession (\<lambda>k. Resolves \<lparr>status = 404, data = JObj [(''message'', JStr ''Not Found'')]\<rparr>) 0 =
     ([GetSession], Inr (JObj [(''message'', JStr ''Not Found''), (''statusCode'', JNum 404)]))
   \<and> take 3 (fst (getNewSession http_error_then_ok 0)) = [GetSession, Wait 1, GetSession]"
proof -
  have h: "http_error_then_ok 0 =
      Rejects (AxiosError (Some \<lparr>status = 404, data = JObj [(''message'', JStr ''Not Found'')]\<rparr>))"
    by (simp add: http_error_then_ok_def)
  have z: "(0::nat) < 100" by simp
  from session_retry_trigger [where
      senv = "\<lambda>k. Resolves \<lparr>status = 404, data = JObj [(''message'', JStr ''Not Found'')]\<rparr>"
      and r = "\<lparr>status = 404, data = JObj [(''message'', JStr ''Not Found'')]\<rparr>"
      and v = "JObj [(''message'', JStr ''Not Found''), (''statusCode'', JNum 404)]" and n = 0]
  have a: "getNewSession (\<lambda>k. Resolves \<lparr>status = 404, data = JObj [(''message'', JStr ''Not Found'')]\<rparr>) 0 =
     ([GetSession], Inr (JObj [(''message'', JStr ''Not Found''), (''statusCode'', JNum 404)]))"
    by simp
  from session_retry_trigger [where senv = http_error_then_ok and n = 0
      and e = "AxiosError (Some \<lparr>status = 404, data = JObj [(''message'', JStr ''Not Found'')]\<rparr>)"]
  have b: "take 3 (fst (getNewSession http_error_then_ok 0)) = [GetSession, Wait 1, GetSession]"
    using h z by blast
  from a b show ?thesis by simp
qed

section \<open>The shape of results\<close>

lemma error_shaped_invariant:
  "error_shaped r \<Longrightarrow>
     get_prop r ''status'' = Inr (Some (JBool False)) \<and> get_prop r ''data'' = Inr None
     \<and> uniform_invariant r"
  by (auto simp: error_shaped_def uniform_invariant_def)

lemma try_block_invariant:
  "try_block (Resolves resp) = Inr r \<Longrightarrow> uniform_invariant r = uniform_invariant (data resp)"
  by (cases "data resp") (auto simp: uniform_invariant_def update_conv')

lemma try_block_Inr_Resolves:
  "try_block out = Inr r \<Longrightarrow> \<exists>resp. out = Resolves resp"
  by (cases out) auto

text \<open>
  Claim C3 as written fails: the session fetch passes on what the upstream sent, and an
  upstream body \<open>{status: true}\<close> yields a result with \<open>status\<close> true and no
  \<open>data\<close>.
\<close>

theorem uniform_result_counterexample:
  "getNewSession session_no_data 0 =
     ([GetSession], Inr (JObj [(''status'', JBool True), (''statusCode'', JNum 200)]))
   \<and> \<not> uniform_invariant (JObj [(''status'', JBool True), (''statusCode'', JNum 200)])"
proof -
  have "getNewSession session_no_data 0 =
     ([GetSession], Inr (JObj [(''status'', JBool True), (''statusCode'', JNum 200)]))"
    by (rule getNewSession_Inr) (simp add: session_no_data_def)
  then show ?thesis by (simp add: uniform_invariant_def)
qed

lemma session_result_invariant:
  assumes "error_shaped r \<or> (\<exists>k. try_block (senv k) = Inr r)"
  shows "(get_prop r ''status'' = Inr (Some (JBool False)) \<and> get_prop r ''data'' = Inr None
         \<and> uniform_invariant r)
        \<or> (\<exists>k resp. senv k = Resolves resp \<and> try_block (senv k) = Inr r
             \<and> uniform_invariant r = uniform_invariant (data resp))"
proof -
  from assms consider "error_shaped r" | k where "try_block (senv k) = Inr r" by blast
  then show ?thesis
  proof cases
    case 1
    then show ?thesis using error_shaped_invariant by blast
  next
    case 2
    then obtain resp where resp: "senv k = Resolves resp" using try_block_Inr_Resolves by blast
    with 2 have "uniform_invariant r = uniform_invariant (data resp)"
      using try_block_invariant [of resp r] by simp
    with 2 resp show ?thesis by blast
  qed
qed

lemma completion_result_invariant:
  assumes "error_shaped r \<or> try_block (cenv b) = Inr r"
  shows "(get_prop r ''status'' = Inr (Some (JBool False)) \<and> get_prop r ''data'' = Inr None
         \<and> uniform_invariant r)
        \<or> (\<exists>resp. cenv b = Resolves resp \<and> try_block (cenv b) = Inr r
             \<and> uniform_invariant r = uniform_invariant (data resp))"
proof -
  from assms consider "error_shaped r" | "try_block (cenv b) = Inr r" by blast
  then show ?thesis
  proof cases
    case 1
    then show ?thesis using error_shaped_invariant by blast
  next
    case 2
    then obtain resp where resp: "cenv b = Resolves resp" using try_block_Inr_Resolves by blast
    with 2 have "uniform_invariant r = uniform_invariant (data resp)"
      using try_block_invariant [of resp r] by simp
    with 2 resp show ?thesis by blast
  qed
qed

text \<open>
  Claim C3, as the code has it. A result built by \<open>handleErrorResponse\<close> has
  \<open>status: false\<close> and no \<open>data\<close>, and so satisfies the invariant. Every result of
  the session fetch and of the completion call (both variants) either is of that kind, or
  is the body of a resolved upstream response with \<open>statusCode\<close> set, and then it
  satisfies the invariant exactly when the upstream body does.
\<close>

theorem uniform_result_invariant:
  "(snd (handleErrorResponse e) = Inr r \<longrightarrow>
      get_prop r ''status'' = Inr (Some (JBool False)) \<and> get_prop r ''data'' = Inr None
      \<and> uniform_invariant r)
   \<and> (snd (getNewSession senv n) = Inr r \<longrightarrow>
        (get_prop r ''status'' = Inr (Some (JBool False)) \<and> get_prop r ''data'' = Inr None
         \<and> uniform_invariant r)
        \<or> (\<exists>k resp. senv k = Resolves resp \<and> try_block (senv k) = Inr r
             \<and> uniform_invariant r = uniform_invariant (data resp)))
   \<and> (snd (getNewSession_v2 senv n) = Inr r \<longrightarrow>
        (get_prop r ''status'' = Inr (Some (JBool False)) \<and> get_prop r ''data'' = Inr None
         \<and> uniform_invariant r)
        \<or> (\<exists>k resp. senv k = Resolves resp \<and> try_block (senv k) = Inr r
             \<and> uniform_invariant r = uniform_invariant (data resp)))
   \<and> (snd (getCompletionWithOpenAi cenv c) = Inr r \<longrightarrow>
        (get_prop r ''status'' = Inr (Some (JBool False)) \<and> get_prop r ''data'' = Inr None
         \<and> uniform_invariant r)
        \<or> (\<exists>resp. cenv (to_json c) = Resolves resp \<and> try_block (cenv (to_json c)) = Inr r
             \<and> uniform_invariant r = uniform_invariant (data resp)))
   \<and> (snd (getCompletionWithOpenAi_v2 cenv (Some x)) = Inr r \<longrightarrow>
        (get_prop r ''status'' = Inr (Some (JBool False)) \<and> get_prop r ''data'' = Inr None
         \<and> uniform_invariant r)
        \<or> (\<exists>resp. cenv x = Resolves resp \<and> try_block (cenv x) = Inr r
             \<and> uniform_invariant r = uniform_invariant (data resp)))"
proof -
  have p1: "snd (handleErrorResponse e) = Inr r \<longrightarrow>
      get_prop r ''status'' = Inr (Some (JBool False)) \<and> get_prop r ''data'' = Inr None
      \<and> uniform_invariant r"
    using handleErrorResponse_shape error_shaped_invariant by blast
  have p2: "snd (getNewSession senv n) = Inr r \<longrightarrow>
        (get_prop r ''status'' = Inr (Some (JBool False)) \<and> get_prop r ''data'' = Inr None
         \<and> uniform_invariant r)
        \<or> (\<exists>k resp. senv k = Resolves resp \<and> try_block (senv k) = Inr r
             \<and> uniform_invariant r = uniform_invariant (data resp))"
    using getNewSession_result [of senv n r] session_result_invariant [of r senv] by blast
  have p3: "snd (getNewSession_v2 senv n) = Inr r \<longrightarrow>
        (get_prop r ''status'' = Inr (Some (JBool False)) \<and> get_prop r ''data'' = Inr None
         \<and> uniform_invariant r)
        \<or> (\<exists>k resp. senv k = Resolves resp \<and> try_block (senv k) = Inr r
             \<and> uniform_invariant r = uniform_invariant (data resp))"
    using getNewSession_v2_result [of senv n r] session_result_invariant [of r senv] by blast
  have p4: "snd (getCompletionWithOpenAi cenv c) = Inr r \<longrightarrow>
        (get_prop r ''status'' = Inr (Some (JBool False)) \<and> get_prop r ''data'' = Inr None
         \<and> uniform_invariant r)
        \<or> (\<exists>resp. cenv (to_json c) = Resolves resp \<and> try_block (cenv (to_json c)) = Inr r
             \<and> uniform_invariant r = uniform_invariant (data resp))"
    using getCompletionWithOpenAi_result [of cenv c r]
      completion_result_invariant [of r cenv "to_json c"] by blast
  have p5: "snd (getCompletionWithOpenAi_v2 cenv (Some x)) = Inr r \<longrightarrow>
        (get_prop r ''status'' = Inr (Some (JBool False)) \<and> get_prop r ''data'' = Inr None
         \<and> uniform_invariant r)
        \<or> (\<exists>resp. cenv x = Resolves resp \<and> try_block (cenv x) = Inr r
             \<and> uniform_invariant r = uniform_invariant (data resp))"
    using getCompletionWithOpenAi_v2_result [of cenv "Some x" r]
      completion_result_invariant [of r cenv x] by auto
  show ?thesis
    by (rule conjI [OF p1 conjI [OF p2 conjI [OF p3 conjI [OF p4 p5]]]])
qed

text \<open>
  Claim C3, witness: the normalised result of a 404 answer.
\<close>

theorem uniform_result_invariant_witness:
  "uniform_invariant (JObj [(''status'', JBool False), (''statusCode'', JNum 404),
      (''error'', JStr ''Not Found'')])
   \<and> snd (handleErrorResponse (Some (AxiosError (Some
        \<lparr>status = 404, data = JObj [(''message'', JStr ''Not Found'')]\<rparr>)))) =
      Inr (JObj [(''status'', JBool False), (''statusCode'', JNum 404),
      (''error'', JStr ''Not Found'')])"
  using uniform_result_invariant [of
      "Some (AxiosError (Some \<lparr>status = 404, data = JObj [(''message'', JStr ''Not Found'')]\<rparr>))"
      "JObj [(''status'', JBool False), (''statusCode'', JNum 404), (''error'', JStr ''Not Found'')]"]
  by simp

section \<open>Unknown routes\<close>

text \<open>
  Claim C5 as written (404 regardless of the method, OPTIONS included) fails: the CORS
  middleware ends every OPTIONS request with status 200 and no body before any route or
  the fallback is reached.
\<close>

theorem unknown_route_counterexample:
  "app exact_route ''8000'' no_answer echo
     \<lparr>method = ''OPTIONS'', path = ''/unknown-path'', body = None\<rparr> =
   ([], Inr \<lparr>code = 200,
             headers = [(''Access-Control-Allow-Origin'', ''*''),
                        (''Access-Control-Allow-Headers'', ''*''),
                        (''Access-Control-Allow-Methods'', ''GET, POST, OPTIONS'')],
             payload = NoBody\<rparr>)"
  by (simp add: app_def enableCORS_def new_res_def pure_eff_def)

text \<open>
  Claim C5, as the code has it. A request whose method is not OPTIONS and that matches
  neither \<open>GET /\<close> nor \<open>POST /v1/chat/completions\<close> is answered 404 with a body whose
  \<open>status\<close> is false and whose \<open>error.type\<close> is \<open>invalid_request_error\<close>. An
  OPTIONS request is answered 200 without a body on every path. Both variants agree.
\<close>

theorem unknown_route:
  "(method req \<noteq> ''OPTIONS'' \<and> \<not> route ''GET'' ''/'' req
      \<and> \<not> route ''POST'' ''/v1/chat/completions'' req \<longrightarrow>
      (\<exists>res b e. app route port senv cenv req = ([], Inr res) \<and> code res = 404
         \<and> payload res = JsonBody b
         \<and> get_prop b ''status'' = Inr (Some (JBool False))
         \<and> get_prop b ''error'' = Inr (Some e)
         \<and> get_prop e ''type'' = Inr (Some (JStr ''invalid_request_error'')))
      \<and> app_v2 route port senv cenv req = app route port senv cenv req)
   \<and> (method req = ''OPTIONS'' \<longrightarrow>
      (\<exists>res. app route port senv cenv req = ([], Inr res) \<and> code res = 200
         \<and> payload res = NoBody)
      \<and> app_v2 route port senv cenv req = app route port senv cenv req)"
  by (simp add: app_def app_v2_def enableCORS_def notFound_def pure_eff_def Let_def new_res_def)

text \<open>
  Claim C5, witness: \<open>GET /unknown-path\<close> and \<open>OPTIONS /\<close>.
\<close>

theorem unknown_route_witness:
  "app exact_route ''8000'' no_answer echo
     \<lparr>method = ''GET'', path = ''/unknown-path'', body = None\<rparr> =
   ([], Inr \<lparr>code = 404,
             headers = [(''Access-Control-Allow-Origin'', ''*''),
                        (''Access-Control-Allow-Headers'', ''*''),
                        (''Access-Control-Allow-Methods'', ''GET, POST, OPTIONS'')],
             payload = JsonBody (JObj
               [(''status'', JBool False),
                (''error'', JObj
                  [(''message'', JStr (''The requested endpoint (GET /unknown-path) was not found. ''
                      @ ''please make sure to use '' @ [CHR 0x22] @ ''http://localhost:8000/v1''
                      @ [CHR 0x22] @ '' as the base URL.'')),
                   (''type'', JStr ''invalid_request_error'')])])\<rparr>)
   \<and> code (projr (snd (app exact_route ''8000'' no_answer echo
       \<lparr>method = ''OPTIONS'', path = ''/'', body = None\<rparr>))) = 200"
proof -
  from unknown_route [of "\<lparr>method = ''GET'', path = ''/unknown-path'', body = None\<rparr>"
      exact_route "''8000''" no_answer echo]
  obtain res b e where r: "app exact_route ''8000'' no_answer echo
       \<lparr>method = ''GET'', path = ''/unknown-path'', body = None\<rparr> = ([], Inr res)"
    "code res = 404" "payload res = JsonBody b"
    "get_prop b ''error'' = Inr (Some e)"
    "get_prop e ''type'' = Inr (Some (JStr ''invalid_request_error''))"
    by (auto simp: exact_route_def)
  have u: "toLocaleUpperCase ''GET'' = ''GET''"
    by (simp add: toLocaleUpperCase_def upper_char_def)
  have a: "app exact_route ''8000'' no_answer echo
     \<lparr>method = ''GET'', path = ''/unknown-path'', body = None\<rparr> =
   ([], Inr \<lparr>code = 404,
             headers = [(''Access-Control-Allow-Origin'', ''*''),
                        (''Access-Control-Allow-Headers'', ''*''),
                        (''Access-Control-Allow-Methods'', ''GET, POST, OPTIONS'')],
             payload = JsonBody (JObj
               [(''status'', JBool False),
                (''error'', JObj
                  [(''message'', JStr (''The requested endpoint (GET /unknown-path) was not found. ''
                      @ ''please make sure to use '' @ [CHR 0x22] @ ''http://localhost:8000/v1''
                      @ [CHR 0x22] @ '' as the base URL.'')),
                   (''type'', JStr ''invalid_request_error'')])])\<rparr>)"
    using r by (simp add: app_def enableCORS_def notFound_def pure_eff_def new_res_def
        exact_route_def u)
  from unknown_route [of "\<lparr>method = ''OPTIONS'', path = ''/'', body = None\<rparr>"
      exact_route "''8000''" no_answer echo]
  have b: "code (projr (snd (app exact_route ''8000'' no_answer echo
       \<lparr>method = ''OPTIONS'', path = ''/'', body = None\<rparr>))) = 200"
    by auto
  from a b show ?thesis by simp
qed

section \<open>The round trip\<close>

text \<open>
  Claim C6 as written (the body equals the echoed composed request) fails: the completion
  call assigns \<open>statusCode\<close> on the body it received, so the answer carries the field
  \<open>statusCode: 200\<close> besides \<open>session\<close> and \<open>conversation\<close>.
\<close>

theorem round_trip_counterexample:
  "handleConversation (session_ok (JObj [(''token'', JStr ''abc'')])) echo post_req new_res =
     ([GetSession, PostCompletion (to_json
          \<lparr>session = Some (JObj [(''token'', JStr ''abc'')]), conversation = body post_req\<rparr>)],
      Inr \<lparr>code = 200, headers = [], payload = JsonBody (JObj
        [(''session'', JObj [(''token'', JStr ''abc'')]),
         (''conversation'', JObj [(''model'', JStr ''gpt''), (''messages'', JArr [] [])]),
         (''statusCode'', JNum 200)])\<rparr>)
   \<and> JObj [(''session'', JObj [(''token'', JStr ''abc'')]),
         (''conversation'', JObj [(''model'', JStr ''gpt''), (''messages'', JArr [] [])]),
         (''statusCode'', JNum 200)]
      \<noteq> to_json \<lparr>session = Some (JObj [(''token'', JStr ''abc'')]), conversation = body post_req\<rparr>"
proof -
  have g: "getNewSession (session_ok (JObj [(''token'', JStr ''abc'')])) 0 =
     ([GetSession], Inr (JObj [(''statusCode'', JNum 200), (''status'', JBool True),
        (''data'', JObj [(''token'', JStr ''abc'')])]))"
    by (rule getNewSession_Inr) (simp add: session_ok_def)
  show ?thesis
    by (simp add: handleConversation_def g pure_eff_def getCompletionWithOpenAi_def to_json_def
        echo_def post_req_def relay_def new_res_def)
qed

text \<open>
  Claim C6, as the code has it. When the session endpoint answers 200 with
  \<open>{statusCode: 200, status: true, data: bundle}\<close>, the bundle is truthy and the
  completion endpoint answers 200 echoing the body posted, the handler posts
  \<open>{session: bundle, conversation: body}\<close> and answers with status 200 and the body
  \<open>{session: bundle, conversation: body, statusCode: 200}\<close>.
\<close>

theorem round_trip:
  "senv 0 = Resolves \<lparr>status = 200, data = JObj
       [(''statusCode'', JNum 200), (''status'', JBool True), (''data'', bundle)]\<rparr>
   \<and> truthy (Some bundle) \<and> body req = Some conv \<longrightarrow>
   handleConversation senv (\<lambda>b. Resolves \<lparr>status = 200, data = b\<rparr>) req res =
     ([GetSession,
       PostCompletion (JObj [(''session'', bundle), (''conversation'', conv)])],
      Inr (res\<lparr>code := 200, payload := JsonBody (JObj
        [(''session'', bundle), (''conversation'', conv), (''statusCode'', JNum 200)])\<rparr>))"
proof
  assume a: "senv 0 = Resolves \<lparr>status = 200, data = JObj
       [(''statusCode'', JNum 200), (''status'', JBool True), (''data'', bundle)]\<rparr>
   \<and> truthy (Some bundle) \<and> body req = Some conv"
  then have g: "getNewSession senv 0 =
     ([GetSession], Inr (JObj [(''statusCode'', JNum 200), (''status'', JBool True),
        (''data'', bundle)]))"
    by (intro getNewSession_Inr) simp
  from a show "handleConversation senv (\<lambda>b. Resolves \<lparr>status = 200, data = b\<rparr>) req res =
     ([GetSession,
       PostCompletion (JObj [(''session'', bundle), (''conversation'', conv)])],
      Inr (res\<lparr>code := 200, payload := JsonBody (JObj
        [(''session'', bundle), (''conversation'', conv), (''statusCode'', JNum 200)])\<rparr>))"
    by (simp add: handleConversation_def g pure_eff_def getCompletionWithOpenAi_def to_json_def
        relay_def)
qed

text \<open>
  Claim C6, witness: a bundle with a token and a conversation with a model.
\<close>

theorem round_trip_witness:
  "handleConversation (session_ok (JObj [(''token'', JStr ''abc'')])) echo post_req new_res =
     ([GetSession, PostCompletion (JObj [(''session'', JObj [(''token'', JStr ''abc'')]),
         (''conversation'', JObj [(''model'', JStr ''gpt''), (''messages'', JArr [] [])])])],
      Inr \<lparr>code = 200, headers = [], payload = JsonBody (JObj
        [(''session'', JObj [(''token'', JStr ''abc'')]),
         (''conversation'', JObj [(''model'', JStr ''gpt''), (''messages'', JArr [] [])]),
         (''statusCode'', JNum 200)])\<rparr>)"
proof -
  have e: "echo = (\<lambda>b. Resolves \<lparr>status = 200, data = b\<rparr>)"
    by (rule ext) (simp add: echo_def)
  from round_trip [of "session_ok (JObj [(''token'', JStr ''abc'')])"
      "JObj [(''token'', JStr ''abc'')]" post_req
      "JObj [(''model'', JStr ''gpt''), (''messages'', JArr [] [])]" new_res]
  show ?thesis
    by (simp add: e session_ok_def post_req_def new_res_def)
qed

section \<open>The default error of the completion call\<close>

text \<open>
  Claim C7 as written (both variants substitute the default) fails in the session-only
  variant: a 400 answer without a message yields a result without \<open>error\<close>.
\<close>

theorem completion_default_error_counterexample:
  "getCompletionWithOpenAi_v2 http_400_empty (Some (JObj [(''token'', JStr ''abc'')])) =
     ([PostCompletion (JObj [(''token'', JStr ''abc'')]), LogError 400 (JObj [])],
      Inr (JObj [(''status'', JBool False), (''statusCode'', JNum 400)]))
   \<and> get_prop (JObj [(''status'', JBool False), (''statusCode'', JNum 400)]) ''error'' = Inr None"
  by (simp add: getCompletionWithOpenAi_v2_def http_400_empty_def)

text \<open>
  Claim C7, as the code has it. In the two-stage variant, when the completion request
  fails and the normalised result has an absent or falsy \<open>error\<close>, the result
  returned is the normalised one with \<open>error\<close> set to
  \<open>Error while getting completions...\<close>, its other fields unchanged; a truthy
  \<open>error\<close> is kept. The session-only variant returns the normalised result as it is.
\<close>

theorem completion_default_error:
  "(truthy (session c) \<and> try_block (cenv (to_json c)) = Inl e
      \<and> handleErrorResponse (Some e) = (logs, Inr er) \<and> get_prop er ''error'' = Inr m \<longrightarrow>
      (\<not> truthy m \<longrightarrow>
         (\<exists>r. getCompletionWithOpenAi cenv c = (PostCompletion (to_json c) # logs, Inr r)
            \<and> set_prop er ''error'' (JStr ''Error while getting completions...'') = Inr r
            \<and> get_prop r ''error'' = Inr (Some (JStr ''Error while getting completions...''))
            \<and> get_prop r ''status'' = get_prop er ''status''
            \<and> get_prop r ''statusCode'' = get_prop er ''statusCode''))
      \<and> (truthy m \<longrightarrow>
         getCompletionWithOpenAi cenv c = (PostCompletion (to_json c) # logs, Inr er)))
   \<and> (truthy (Some s) \<and> try_block (cenv s) = Inl e \<longrightarrow>
      getCompletionWithOpenAi_v2 cenv (Some s) =
        after [PostCompletion s] (handleErrorResponse (Some e)))"
proof (intro conjI impI)
  assume a: "truthy (session c) \<and> try_block (cenv (to_json c)) = Inl e
      \<and> handleErrorResponse (Some e) = (logs, Inr er) \<and> get_prop er ''error'' = Inr m"
  then have "error_shaped er" using handleErrorResponse_shape [of "Some e" er] by simp
  then obtain ps where ps: "er = JObj ps" by (auto simp: error_shaped_def)
  { assume m: "\<not> truthy m"
    let ?r = "JObj (AList.update ''error'' (JStr ''Error while getting completions...'') ps)"
    have "getCompletionWithOpenAi cenv c = (PostCompletion (to_json c) # logs, Inr ?r)"
      using a m ps by (simp add: getCompletionWithOpenAi_def default_error_def pure_eff_def)
    moreover have "set_prop er ''error'' (JStr ''Error while getting completions...'') = Inr ?r"
      using ps by simp
    moreover have "get_prop ?r ''error'' = Inr (Some (JStr ''Error while getting completions...''))"
      by (simp add: update_conv')
    moreover have "get_prop ?r ''status'' = get_prop er ''status''"
      "get_prop ?r ''statusCode'' = get_prop er ''statusCode''"
      using ps by (simp_all add: update_conv')
    ultimately show "\<exists>r. getCompletionWithOpenAi cenv c = (PostCompletion (to_json c) # logs, Inr r)
            \<and> set_prop er ''error'' (JStr ''Error while getting completions...'') = Inr r
            \<and> get_prop r ''error'' = Inr (Some (JStr ''Error while getting completions...''))
            \<and> get_prop r ''status'' = get_prop er ''status''
            \<and> get_prop r ''statusCode'' = get_prop er ''statusCode''" by blast }
  { assume m: "truthy m"
    show "getCompletionWithOpenAi cenv c = (PostCompletion (to_json c) # logs, Inr er)"
      using a m ps by (simp add: getCompletionWithOpenAi_def default_error_def pure_eff_def) }
next
  assume "truthy (Some s) \<and> try_block (cenv s) = Inl e"
  then show "getCompletionWithOpenAi_v2 cenv (Some s) =
        after [PostCompletion s] (handleErrorResponse (Some e))"
    by (simp add: getCompletionWithOpenAi_v2_def)
qed

text \<open>
  Claim C7, witness: a 400 answer with an empty body in the two-stage variant.
\<close>

theorem completion_default_error_witness:
  "getCompletionWithOpenAi http_400_empty
     \<lparr>session = Some (JObj [(''token'', JStr ''abc'')]), conversation = None\<rparr> =
     ([PostCompletion (JObj [(''session'', JObj [(''token'', JStr ''abc'')])]),
       LogError 400 (JObj [])],
      Inr (JObj [(''status'', JBool False), (''statusCode'', JNum 400),
                 (''error'', JStr ''Error while getting completions...'')]))"
proof -
  from completion_default_error [where
      c = "\<lparr>session = Some (JObj [(''token'', JStr ''abc'')]), conversation = None\<rparr>"
      and cenv = http_400_empty
      and e = "AxiosError (Some \<lparr>status = 400, data = JObj []\<rparr>)"
      and logs = "[LogError 400 (JObj [])]"
      and er = "JObj [(''status'', JBool False), (''statusCode'', JNum 400)]"
      and m = None]
  show ?thesis
    by (simp add: http_400_empty_def to_json_def) 
qed

end
